theory Spec2Isabelle
  imports Main
begin

section \<open>Python values and errors\<close>

text \<open>
  Every exception the modelled functions of \<^verbatim>\<open>ffmpeg-cnvt.py\<close> can raise is a value;
  a function that can raise returns \<open>error + 'a\<close> with \<open>Inl\<close> for the exception.
  Messages are kept short: the formatted details of the source's messages are not modelled.
\<close>

datatype error =
    AttributeError string
  | ValueError string
  | TypeError string
  | IndexError
  | KeyError string
  | ZeroDivisionError
  | OverflowError
  | Exception string

definition bindE :: "error + 'a \<Rightarrow> ('a \<Rightarrow> error + 'b) \<Rightarrow> error + 'b" where
  "bindE m f = (case m of Inl e \<Rightarrow> Inl e | Inr x \<Rightarrow> f x)"

text \<open>
  The option lists argparse builds hold values of different shapes: a plain list of strings
  for a \<open>choices\<close> option with \<open>action='append'\<close>, a list of two-element lists for an option
  with \<open>nargs=2\<close>. The source tests membership and indexes into them without regard to the
  shape, so the tests are modelled on Python values.
\<close>

datatype pyval = PStr string | PInt int | PList "pyval list"

definition str_items :: "string list \<Rightarrow> pyval list" where
  "str_items xs = map PStr xs"

definition pair_items :: "(string \<times> string) list \<Rightarrow> pyval list" where
  "pair_items xs = map (\<lambda>(t, v). PList [PStr t, PStr v]) xs"

definition int_pair_items :: "(string \<times> int) list \<Rightarrow> pyval list" where
  "int_pair_items xs = map (\<lambda>(t, v). PList [PStr t, PInt v]) xs"

section \<open>Strings\<close>

text \<open>\<open>str(n)\<close> and \<open>"{}".format(n)\<close> for an int: decimal digits, a minus sign when negative.\<close>

definition digit_char :: "nat \<Rightarrow> char" where
  "digit_char d = ''0123456789'' ! (d mod 10)"

fun str_nat :: "nat \<Rightarrow> string" where
  "str_nat n = (if n < 10 then [digit_char n] else str_nat (n div 10) @ [digit_char (n mod 10)])"

declare str_nat.simps [simp del]

definition str_int :: "int \<Rightarrow> string" where
  "str_int i = (if i < 0 then CHR ''-'' # str_nat (nat (- i)) else str_nat (nat i))"

text \<open>\<open>sep.join(xs)\<close>.\<close>

fun join :: "string \<Rightarrow> string list \<Rightarrow> string" where
  "join sep [] = []"
| "join sep [x] = x"
| "join sep (x # y # ys) = x @ sep @ join sep (y # ys)"

text \<open>
  \<open>s.count(sub)\<close>: the number of non-overlapping occurrences of \<open>sub\<close> in \<open>s\<close>, scanning from
  the left; for an empty \<open>sub\<close> Python returns \<open>len(s) + 1\<close>.
\<close>

fun count_from :: "string \<Rightarrow> string \<Rightarrow> nat" where
  "count_from sub [] = 0"
| "count_from sub (c # cs) =
     (if take (length sub) (c # cs) = sub
      then Suc (count_from sub (drop (length sub - 1) cs))
      else count_from sub cs)"

definition py_count :: "string \<Rightarrow> string \<Rightarrow> nat" where
  "py_count s sub = (if sub = [] then length s + 1 else count_from sub s)"

text \<open>
  \<open>s.find(c, start)\<close> and \<open>s.rfind(c)\<close> for a one-character \<open>c\<close>: the index of the first
  occurrence at or after \<open>start\<close>, of the last occurrence; \<open>None\<close> stands for Python's -1.
\<close>

fun find_from :: "char \<Rightarrow> string \<Rightarrow> nat \<Rightarrow> nat option" where
  "find_from c [] i = None"
| "find_from c (x # xs) i = (if x = c then Some i else find_from c xs (Suc i))"

definition find_char :: "string \<Rightarrow> char \<Rightarrow> nat \<Rightarrow> nat option" where
  "find_char s c start = find_from c (drop start s) start"

definition rfind :: "string \<Rightarrow> char \<Rightarrow> nat option" where
  "rfind s c = (case find_from c (rev s) 0 of None \<Rightarrow> None | Some j \<Rightarrow> Some (length s - 1 - j))"

text \<open>
  The slices \<open>s[pos:]\<close> and \<open>s[:pos]\<close> where \<open>pos\<close> is the result of \<open>rfind\<close>: with -1
  (\<open>None\<close>) Python counts from the end, so \<open>s[-1:]\<close> is the last character and \<open>s[:-1]\<close>
  all but the last.
\<close>

definition slice_from :: "string \<Rightarrow> nat option \<Rightarrow> string" where
  "slice_from s pos = (case pos of None \<Rightarrow> drop (length s - 1) s | Some i \<Rightarrow> drop i s)"

definition slice_to :: "string \<Rightarrow> nat option \<Rightarrow> string" where
  "slice_to s pos = (case pos of None \<Rightarrow> take (length s - 1) s | Some i \<Rightarrow> take i s)"

text \<open>
  \<open>int(s)\<close> on a string: surrounding whitespace is skipped, then an optional sign and a
  non-empty run of decimal digits in which single underscores may separate digits;
  anything else raises ValueError. (Python also accepts non-ASCII decimal digits; the
  strings here are bytes.)
\<close>

definition is_space :: "char \<Rightarrow> bool" where
  "is_space c = (c \<in> set [CHR '' '', CHR 0x09, CHR 0x0A, CHR 0x0B, CHR 0x0C, CHR 0x0D])"

definition is_digit :: "char \<Rightarrow> bool" where
  "is_digit c = (c \<in> set ''0123456789'')"

definition strip :: "string \<Rightarrow> string" where
  "strip s = rev (dropWhile is_space (rev (dropWhile is_space s)))"

definition digit_val :: "char \<Rightarrow> nat" where
  "digit_val c = (case find_from c ''0123456789'' 0 of None \<Rightarrow> 0 | Some d \<Rightarrow> d)"

fun digits_ok :: "string \<Rightarrow> bool" where
  "digits_ok [] = False"
| "digits_ok [c] = is_digit c"
| "digits_ok (c # d # ds) =
     (is_digit c \<and> (if d = CHR ''_'' then ds \<noteq> [] \<and> digits_ok ds else digits_ok (d # ds)))"

definition digits_nat :: "string \<Rightarrow> nat" where
  "digits_nat ds = foldl (\<lambda>acc c. 10 * acc + digit_val c) 0 (filter is_digit ds)"

definition py_int :: "string \<Rightarrow> error + int" where
  "py_int s =
     (case strip s of
        [] \<Rightarrow> Inl (ValueError ''invalid literal for int()'')
      | c # cs \<Rightarrow>
          let (neg, ds) = (if c = CHR ''-'' then (True, cs)
                           else if c = CHR ''+'' then (False, cs) else (False, c # cs))
          in if digits_ok ds
             then Inr (if neg then - int (digits_nat ds) else int (digits_nat ds))
             else Inl (ValueError ''invalid literal for int()''))"

text \<open>\<open>'1'.zfill(chars)\<close>: zeros on the left up to the width \<open>chars\<close>.\<close>

definition zfill_one :: "int \<Rightarrow> string" where
  "zfill_one chars = replicate (nat (chars - 1)) CHR ''0'' @ ''1''"

section \<open>Floating point\<close>

text \<open>
  The aspect-ratio arithmetic of the geometry resolver is done in Python floats. The
  operations it uses are parameters of the model, each with the exceptions it can raise
  as a result, so every statement below holds for any float arithmetic:
  \<open>float(s)\<close>, \<open>int / int\<close>, \<open>float / float\<close>, \<open>int / float\<close>, \<open>int * float\<close>, \<open>int(x)\<close>
  (truncation; raises on an infinity or a NaN) and \<open><\<close>.
\<close>

record 'f float_ops =
  float_of_str :: "string \<Rightarrow> error + 'f"
  int_div_int :: "int \<Rightarrow> int \<Rightarrow> error + 'f"
  float_div_float :: "'f \<Rightarrow> 'f \<Rightarrow> error + 'f"
  int_div_float :: "int \<Rightarrow> 'f \<Rightarrow> error + 'f"
  int_mul_float :: "int \<Rightarrow> 'f \<Rightarrow> error + 'f"
  int_of_float :: "'f \<Rightarrow> error + int"
  float_less :: "'f \<Rightarrow> 'f \<Rightarrow> bool"

section \<open>Geometry: padding\<close>

text \<open>
  \<^verbatim>\<open>pad_resolution(res, padding)\<close>, lines 435-440. Python's \<open>%\<close> on ints is the floored
  remainder (the sign of the divisor), which is \<open>mod\<close> on \<open>int\<close>; a zero padding raises
  ZeroDivisionError there, where HOL's \<open>mod\<close> would return \<open>res\<close>.
\<close>

definition pad_resolution :: "int \<Rightarrow> int \<Rightarrow> error + int" where
  "pad_resolution res padding =
     (if padding = 0 then Inl ZeroDivisionError
      else let m = res mod padding in
        if m = 0 then Inr res else Inr (res + padding - m))"

section \<open>Constants and the option set\<close>

text \<open>Lines 63-82. \<open>VIDEO_CODECS\<close> is built from a set and is only tested for membership.\<close>

definition AUDIO_CODECS :: "string list" where
  "AUDIO_CODECS = [''aac'', ''ac3'', ''eac3'', ''dts'', ''flac'', ''opus'', ''mp3'', ''wav'']"

definition VIDEO_PRESET_ARGS :: "string list" where
  "VIDEO_PRESET_ARGS = [''h264'', ''h265'', ''h264nv'', ''h265nv'']"

definition VIDEO_CRF_ARGS :: "string list" where
  "VIDEO_CRF_ARGS = [''h264'', ''h265'', ''vp8'', ''vp9'']"

definition VIDEO_CODECS :: "string set" where
  "VIDEO_CODECS = set VIDEO_PRESET_ARGS \<union> set VIDEO_CRF_ARGS"

definition SUBTITLE_CODECS :: "string list" where
  "SUBTITLE_CODECS = [''ssa'', ''ass'', ''dvbsub'', ''dvdsub'', ''srt'', ''sub'']"

definition RES_ARGS :: "string list" where
  "RES_ARGS = [''hd'', ''fhd'', ''qhd'', ''uhd'']"

definition DEPTH_ARGS :: "string list" where
  "DEPTH_ARGS = [''8bit'', ''10bit'']"

definition COLOR_ARGS :: "string list" where
  "COLOR_ARGS = [''sdr'', ''hdr'']"

definition LENGTH_ARGS :: "string list" where
  "LENGTH_ARGS = [''shortest'', ''duration'']"

definition CHANNELS_ARGS :: "string list" where
  "CHANNELS_ARGS = [''mono'', ''stereo'']"

definition STREAM_TYPES_LONG :: "string list" where
  "STREAM_TYPES_LONG = [''video'', ''audio'', ''subtitle'', ''attachment'', ''data'']"

definition STREAM_TYPES_SHORT :: "string list" where
  "STREAM_TYPES_SHORT = [''v'', ''a'', ''s'', ''t'', ''d'']"

text \<open>\<open>STREAM_TYPES_DICT[k]\<close>: a missing key raises KeyError.\<close>

definition STREAM_TYPES_DICT :: "string \<Rightarrow> error + string" where
  "STREAM_TYPES_DICT k =
     (case map_of (zip STREAM_TYPES_SHORT STREAM_TYPES_LONG) k of
        None \<Rightarrow> Inl (KeyError k) | Some l \<Rightarrow> Inr l)"

text \<open>
  The namespace argparse returns (lines 153-273), with the attributes the modelled
  functions read. An option that was not given is \<open>None\<close> (a flag: \<open>False\<close>).
  \<open>-codec\<close>, \<open>-bitrate\<close>, \<open>-lang\<close>, \<open>-addfile\<close>, \<open>-addcodec\<close>, \<open>-addlang\<close> (\<open>nargs=2\<close>,
  \<open>action='append'\<close>) are lists of [type, value]; \<open>-singlestream\<close> and \<open>-addstream\<close> lists of
  [type, int]; \<open>-nocopy\<close>, \<open>-convertonly\<close>, \<open>-addfirst\<close>, \<open>-adddefault\<close>, \<open>-addlooped\<close> lists of
  strings. \<open>bit8\<close>, \<open>bit10\<close>, \<open>hd_arg\<close>, \<open>mono_arg\<close>, \<open>input_arg\<close> and \<open>output_arg\<close> are the
  attributes \<open>8bit\<close>, \<open>10bit\<close>, \<open>hd\<close>, \<open>mono\<close>, \<open>input\<close> and \<open>output\<close>. There is no attribute \<open>vbitrate\<close>: no argument defines it.
  \<open>verbose\<close>, \<open>nolog\<close> and \<open>logfile\<close> only steer printing and logging and are left out.
\<close>

record args =
  input_arg :: string
  output_arg :: string
  container :: "string option"
  codec :: "(string \<times> string) list option"
  bitrate :: "(string \<times> string) list option"
  lang :: "(string \<times> string) list option"
  nocopy :: "string list option"
  singlestream :: "(string \<times> int) list option"
  convertonly :: "string list option"
  addfile :: "(string \<times> string) list option"
  addcodec :: "(string \<times> string) list option"
  addstream :: "(string \<times> int) list option"
  addfirst :: "string list option"
  adddefault :: "string list option"
  addlang :: "(string \<times> string) list option"
  addlooped :: "string list option"
  mono_arg :: bool
  stereo :: bool
  preset :: "string option"
  tune :: "string option"
  tier :: "string option"
  crf :: "int option"
  deshake :: bool
  bit8 :: bool
  bit10 :: bool
  sdr :: bool
  hdr :: bool
  hd_arg :: bool
  fhd :: bool
  qhd :: bool
  uhd :: bool
  width :: "int option"
  height :: "int option"
  crop :: "string option"
  padding :: int
  sequence :: bool
  framerate :: string
  nounknown :: bool
  addattach :: "string option"
  attachtype :: string
  shortest :: bool
  duration :: "string option"
  stoponerror :: bool
  setaffinity :: bool
  dryrun :: bool
  overwrite :: bool
  ffmpegbin :: string
  ffprobebin :: string
  suffix :: bool

text \<open>Python's truth value of an optional string, an optional int and an optional list.\<close>

definition truthy_str :: "string option \<Rightarrow> bool" where
  "truthy_str v = (case v of None \<Rightarrow> False | Some s \<Rightarrow> s \<noteq> [])"

definition truthy_int :: "int option \<Rightarrow> bool" where
  "truthy_int v = (case v of None \<Rightarrow> False | Some i \<Rightarrow> i \<noteq> 0)"

definition truthy_list :: "'a list option \<Rightarrow> bool" where
  "truthy_list v = (case v of None \<Rightarrow> False | Some xs \<Rightarrow> xs \<noteq> [])"

text \<open>
  \<^verbatim>\<open>stream_type_arg(args, stream_type)\<close>, lines 729-736: the value of the first
  [type, value] entry for the type.
\<close>

definition stream_type_arg :: "(string \<times> 'v) list option \<Rightarrow> string \<Rightarrow> 'v option" where
  "stream_type_arg opt stream_type =
     (case opt of None \<Rightarrow> None | Some xs \<Rightarrow> map_of xs stream_type)"

text \<open>
  \<^verbatim>\<open>stream_type_bool(args, stream_type)\<close>, lines 739-743: \<open>stream_type in args\<close>, a
  comparison of the type code with each element of the list, whatever the element is.
\<close>

definition stream_type_bool :: "pyval list option \<Rightarrow> string \<Rightarrow> bool" where
  "stream_type_bool opt stream_type =
     (case opt of None \<Rightarrow> False | Some xs \<Rightarrow> xs \<noteq> [] \<and> PStr stream_type \<in> set xs)"

section \<open>Loops that can raise\<close>

text \<open>
  A \<open>for\<close> loop whose body can raise: the state is threaded through the elements in
  order and the first exception ends the loop. \<open>mapE\<close> is a list comprehension whose
  element expression can raise.
\<close>

fun foldE :: "('a \<Rightarrow> 's \<Rightarrow> error + 's) \<Rightarrow> 'a list \<Rightarrow> 's \<Rightarrow> error + 's" where
  "foldE f [] s = Inr s"
| "foldE f (x # xs) s = bindE (f x s) (foldE f xs)"

fun mapE :: "('a \<Rightarrow> error + 'b) \<Rightarrow> 'a list \<Rightarrow> error + 'b list" where
  "mapE f [] = Inr []"
| "mapE f (x # xs) = bindE (f x) (\<lambda>y. bindE (mapE f xs) (\<lambda>ys. Inr (y # ys)))"

section \<open>Encoders\<close>

text \<open>\<^verbatim>\<open>video_arg_to_codec(arg)\<close>, lines 443-449; the argument may be \<open>None\<close>.\<close>

definition video_arg_to_codec :: "string option \<Rightarrow> string option" where
  "video_arg_to_codec arg =
     (if arg = Some ''h264nv'' then Some ''h264''
      else if arg = Some ''h264n5'' then Some ''h264''
      else arg)"

text \<open>
  \<open>args.vbitrate\<close>, read at line 501: the parser defines no such argument, so the
  attribute lookup on the namespace raises AttributeError.
\<close>

definition args_vbitrate :: "args \<Rightarrow> error + string option" where
  "args_vbitrate a = Inl (AttributeError ''vbitrate'')"

text \<open>\<^verbatim>\<open>video_codec_to_encoder(codec, args)\<close>, lines 457-518.\<close>

definition HDR_PARAMS :: string where
  "HDR_PARAMS = ''keyint=60:bframes=3:vbv-bufsize=75000:vbv-maxrate=75000:hdr-opt=1:repeat-headers=1:colorprim=bt2020:transfer=smpte2084:colormatrix=bt2020nc:master-display='' @ [CHR 0x22] @ ''G(13250,34500)B(7500,3000)R(34000,16000)WP(15635,16450)L(10000000,500)'' @ [CHR 0x22] @ '':max-cli=0,0''"

definition video_codec_to_encoder :: "string option \<Rightarrow> args \<Rightarrow> error + string list" where
  "video_codec_to_encoder cdc a =
     (case cdc of
        None \<Rightarrow> Inr [''copy'']
      | Some c \<Rightarrow>
          if c \<notin> VIDEO_CODECS then Inl (Exception ''Invalid video codec'')
          else
            let output_vcodec =
                  (if c = ''h264'' then [''libx264'']
                   else if c = ''h265'' then [''libx265'']
                   else if c = ''h264nv'' then [''h264_nvenc'']
                   else if c = ''h265nv'' then [''hevc_nvenc'']
                   else if c = ''vp8'' then [''libvpx'']
                   else if c = ''vp9'' then [''libvpx-vp9'']
                   else [c]);
                output_vcodec = output_vcodec @
                  (case preset a of
                     Some p \<Rightarrow> if p \<noteq> [] \<and> c \<in> set VIDEO_PRESET_ARGS then [''-preset'', p] else []
                   | None \<Rightarrow> []);
                output_vcodec = output_vcodec @
                  (case crf a of
                     Some n \<Rightarrow> if n \<noteq> 0 \<and> c \<in> set VIDEO_CRF_ARGS then [''-crf'', str_int n] else []
                   | None \<Rightarrow> []);
                output_vcodec = output_vcodec @
                  (case tune a of
                     Some t \<Rightarrow> if t \<noteq> [] then [''-tune'', t] else []
                   | None \<Rightarrow> []);
                output_vcodec = output_vcodec @
                  (if truthy_str (tier a)
                   then (if tier a = Some ''main'' then [''-no-high-tier'']
                         else if tier a = Some ''high'' then [''-high-tier''] else [])
                   else [])
            in bindE (args_vbitrate a) (\<lambda>vbitrate.
                 let output_vcodec = output_vcodec @
                       (case vbitrate of
                          Some r \<Rightarrow> if r \<noteq> [] then [''-b:v'', r] else []
                        | None \<Rightarrow> []);
                     output_vcodec = output_vcodec @
                       (if bit8 a then [''-pix_fmt'', ''yuv420p'']
                        else if bit10 a then [''-pix_fmt'', ''yuv420p10le''] else []);
                     output_vcodec = output_vcodec @
                       (if sdr a
                        then [''-colorspace:v'', ''bt709'', ''-color_primaries:v'', ''bt709'',
                              ''-color_trc:v'', ''bt709'', ''-color_range:v'', ''tv'']
                        else if hdr a then [''-x265-params'', HDR_PARAMS] else [])
                 in Inr output_vcodec))"

text \<open>\<^verbatim>\<open>audio_codec_to_encoder(codec, args)\<close>, lines 521-547.\<close>

definition audio_codec_to_encoder :: "string option \<Rightarrow> args \<Rightarrow> error + string list" where
  "audio_codec_to_encoder cdc a =
     (case cdc of
        None \<Rightarrow> Inr [''copy'']
      | Some c \<Rightarrow>
          if c \<notin> set AUDIO_CODECS then Inl (Exception ''Invalid audio codec'')
          else
            let output_acodec =
                  (if c = ''opus'' then [''opus'', ''-strict'', ''-2'']
                   else if c = ''dts'' then [''dca'']
                   else if c = ''mp3'' then [''libmp3lame'']
                   else if c = ''wav'' then [''wavpack'']
                   else [c])
            in Inr (output_acodec @
                    (if stereo a then [''-ac'', ''2'']
                     else if mono_arg a then [''-ac'', ''1''] else [])))"

text \<open>\<^verbatim>\<open>subtitle_codec_to_encoder(codec, args)\<close>, lines 550-563.\<close>

definition subtitle_codec_to_encoder :: "string option \<Rightarrow> args \<Rightarrow> error + string list" where
  "subtitle_codec_to_encoder cdc a =
     (case cdc of
        None \<Rightarrow> Inr [''copy'']
      | Some c \<Rightarrow>
          if c \<notin> set SUBTITLE_CODECS then Inl (Exception ''Invalid subtitle codec'')
          else Inr (if c = ''sub'' then [''subrip''] else [c]))"

text \<open>
  \<^verbatim>\<open>stream_codec_to_encoder(stream_type, codec, args)\<close>, lines 566-582. The bitrate test
  is \<open>stream_type in args.bitrate\<close> on the list of [type, rate] entries. Were it true with
  no rate found, the source would append \<open>None\<close> to the tokens; the model raises there.
\<close>

definition stream_codec_to_encoder :: "string \<Rightarrow> string option \<Rightarrow> args \<Rightarrow> error + string list" where
  "stream_codec_to_encoder stream_type cdc a =
     bindE (if stream_type = ''v'' then video_codec_to_encoder cdc a
            else if stream_type = ''a'' then audio_codec_to_encoder cdc a
            else if stream_type = ''s'' then subtitle_codec_to_encoder cdc a
            else Inr [])
       (\<lambda>cmdline.
          if stream_type_bool (map_option pair_items (bitrate a)) stream_type
          then (case stream_type_arg (bitrate a) stream_type of
                  Some r \<Rightarrow> Inr (cmdline @ [''-b:'' @ stream_type, r])
                | None \<Rightarrow> Inl (TypeError ''None in the command line''))
          else Inr cmdline)"

section \<open>Filename suffix\<close>

text \<open>
  \<^verbatim>\<open>suffix_str(args, width, height)\<close>, lines 396-432, one loop step per stream type.
  \<open>stream_type in args.codec\<close> is again a test on the list of [type, codec] entries.
  Line 424 is \<open>"crop={}".args.crop\<close>: an attribute lookup on a string, which raises
  AttributeError. Adding \<open>None\<close> to a string (no codec found) raises TypeError.
\<close>

definition suffix_step :: "args \<Rightarrow> int \<Rightarrow> int \<Rightarrow> string \<Rightarrow> string \<Rightarrow> error + string" where
  "suffix_step a w h stream_type retstr =
     (if stream_type_bool (map_option str_items (nocopy a)) stream_type
      then bindE (STREAM_TYPES_DICT stream_type) (\<lambda>l. Inr (retstr @ ''_'' @ ''no'' @ l))
      else if stream_type_bool (map_option pair_items (codec a)) stream_type
      then (case video_arg_to_codec (stream_type_arg (codec a) stream_type) of
              None \<Rightarrow> Inl (TypeError ''can only concatenate str to str'')
            | Some c \<Rightarrow>
                let retstr = retstr @ ''_'' @ c in
                bindE (if stream_type = ''v''
                       then
                         let retstr = retstr @ (if sdr a then ''_SDR'' else if hdr a then ''_HDR'' else []);
                             retstr = retstr @ (case crf a of
                                                  Some n \<Rightarrow> if n \<noteq> 0 then ''_CRF-'' @ str_int n else []
                                                | None \<Rightarrow> []);
                             retstr = retstr @ (case preset a of
                                                  Some p \<Rightarrow> if p \<noteq> [] then ''_preset-'' @ p else []
                                                | None \<Rightarrow> []);
                             retstr = retstr @ (case tune a of
                                                  Some t \<Rightarrow> if t \<noteq> [] then ''_tune-'' @ t else []
                                                | None \<Rightarrow> [])
                         in if w \<noteq> 0 \<or> h \<noteq> 0
                            then
                              let retstr = retstr @ ''_'' @ str_int w @ ''x'' @ str_int h
                              in if truthy_str (crop a)
                                 then Inl (AttributeError ''args'')
                                 else Inr retstr
                            else Inr retstr
                       else Inr retstr)
                  (\<lambda>retstr.
                     if stream_type = ''a''
                     then Inr (retstr @ (if mono_arg a then ''-1.0''
                                         else if stereo a then ''-2.0'' else []))
                     else Inr retstr))
      else Inr retstr)"

definition suffix_str :: "args \<Rightarrow> int \<Rightarrow> int \<Rightarrow> error + string" where
  "suffix_str a w h = foldE (suffix_step a w h) STREAM_TYPES_SHORT []"

section \<open>Option validator\<close>

text \<open>
  \<open>getattr(args, name)\<close> for the stream-typed options the validator names, as the Python
  list it holds, and \<open>bool(getattr(args, name))\<close> for the scalar options it names. Any
  other name raises AttributeError.
\<close>

definition getattr_list :: "args \<Rightarrow> string \<Rightarrow> error + pyval list option" where
  "getattr_list a name =
     (if name = ''codec'' then Inr (map_option pair_items (codec a))
      else if name = ''bitrate'' then Inr (map_option pair_items (bitrate a))
      else if name = ''nocopy'' then Inr (map_option str_items (nocopy a))
      else if name = ''addfile'' then Inr (map_option pair_items (addfile a))
      else if name = ''addcodec'' then Inr (map_option pair_items (addcodec a))
      else if name = ''addstream'' then Inr (map_option int_pair_items (addstream a))
      else if name = ''addfirst'' then Inr (map_option str_items (addfirst a))
      else if name = ''adddefault'' then Inr (map_option str_items (adddefault a))
      else if name = ''addlang'' then Inr (map_option pair_items (addlang a))
      else if name = ''addlooped'' then Inr (map_option str_items (addlooped a))
      else Inl (AttributeError name))"

definition getattr_bool :: "args \<Rightarrow> string \<Rightarrow> error + bool" where
  "getattr_bool a name =
     (if name = ''tune'' then Inr (truthy_str (tune a))
      else if name = ''crf'' then Inr (truthy_int (crf a))
      else if name = ''crop'' then Inr (truthy_str (crop a))
      else if name = ''8bit'' then Inr (bit8 a)
      else if name = ''10bit'' then Inr (bit10 a)
      else if name = ''sdr'' then Inr (sdr a)
      else if name = ''hdr'' then Inr (hdr a)
      else if name = ''hd'' then Inr (hd_arg a)
      else if name = ''fhd'' then Inr (fhd a)
      else if name = ''qhd'' then Inr (qhd a)
      else if name = ''uhd'' then Inr (uhd a)
      else if name = ''width'' then Inr (truthy_int (width a))
      else if name = ''height'' then Inr (truthy_int (height a))
      else if name = ''mono'' then Inr (mono_arg a)
      else if name = ''stereo'' then Inr (stereo a)
      else if name = ''shortest'' then Inr (shortest a)
      else if name = ''duration'' then Inr (truthy_str (duration a))
      else if name = ''addlooped'' then Inr (truthy_list (addlooped a))
      else Inl (AttributeError name))"

text \<open>
  \<^verbatim>\<open>arg_stream_type_enumeration(arg)\<close>, lines 601-607. The test of line 605 is
  \<open>type(arg[0]) == tuple or type(arg[0] == list)\<close>, whose second operand is a type object
  and so always true: the result is \<open>[val[0] for val in arg]\<close> for every non-empty list.
  \<open>val[0]\<close> is the first element of a list and the first character of a string.
\<close>

definition first_item :: "pyval \<Rightarrow> error + pyval" where
  "first_item v =
     (case v of
        PStr s \<Rightarrow> (case s of [] \<Rightarrow> Inl IndexError | c # _ \<Rightarrow> Inr (PStr [c]))
      | PList xs \<Rightarrow> (case xs of [] \<Rightarrow> Inl IndexError | x # _ \<Rightarrow> Inr x)
      | PInt _ \<Rightarrow> Inl (TypeError ''int is not subscriptable''))"

definition arg_stream_type_enumeration :: "pyval list option \<Rightarrow> error + pyval list" where
  "arg_stream_type_enumeration arg =
     (case arg of
        None \<Rightarrow> Inr []
      | Some xs \<Rightarrow> if xs = [] then Inr [] else mapE first_item xs)"

text \<open>The keys of the option called \<open>name\<close>.\<close>

definition stream_keys :: "args \<Rightarrow> string \<Rightarrow> error + pyval list" where
  "stream_keys a name = bindE (getattr_list a name) arg_stream_type_enumeration"

text \<open>
  \<open>any(key in arg_stream_type_enumeration(getattr(args, n)) for n in names)\<close>: the names
  are tried in order and the first hit ends the search.
\<close>

fun any_key_in :: "args \<Rightarrow> pyval \<Rightarrow> string list \<Rightarrow> error + bool" where
  "any_key_in a key [] = Inr False"
| "any_key_in a key (n # ns) =
     bindE (stream_keys a n) (\<lambda>ks. if key \<in> set ks then Inr True else any_key_in a key ns)"

text \<open>\<open>[n for n in names if key in arg_stream_type_enumeration(getattr(args, n))]\<close>.\<close>

fun names_with_key :: "args \<Rightarrow> pyval \<Rightarrow> string list \<Rightarrow> error + string list" where
  "names_with_key a key [] = Inr []"
| "names_with_key a key (n # ns) =
     bindE (stream_keys a n) (\<lambda>ks.
       bindE (names_with_key a key ns) (\<lambda>r. Inr (if key \<in> set ks then n # r else r)))"

text \<open>\<open>[name for name in names if getattr(args, name)]\<close>.\<close>

fun set_names :: "args \<Rightarrow> string list \<Rightarrow> error + string list" where
  "set_names a [] = Inr []"
| "set_names a (n # ns) =
     bindE (getattr_bool a n) (\<lambda>b.
       bindE (set_names a ns) (\<lambda>r. Inr (if b then n # r else r)))"

text \<open>\<^verbatim>\<open>check_exclusive_args(args, arg_names)\<close>, lines 585-590.\<close>

definition check_exclusive_args :: "args \<Rightarrow> string list \<Rightarrow> error + unit" where
  "check_exclusive_args a arg_names =
     bindE (set_names a arg_names) (\<lambda>set_args.
       if length set_args > 1 then Inl (Exception ''Mutually exclusive arguments'')
       else Inr ())"

text \<open>\<^verbatim>\<open>check_dependent_args(args, arg_names, requires_names)\<close>, lines 593-598.\<close>

definition check_dependent_args :: "args \<Rightarrow> string list \<Rightarrow> string list \<Rightarrow> error + unit" where
  "check_dependent_args a arg_names requires_names =
     foldE (\<lambda>arg_name _.
         bindE (getattr_bool a arg_name) (\<lambda>b.
           if b
           then bindE (mapE (getattr_bool a) requires_names) (\<lambda>bs.
                  if length (filter id bs) = 0
                  then Inl (Exception ''Argument requires one of'')
                  else Inr ())
           else Inr ()))
       arg_names ()"

text \<open>
  \<^verbatim>\<open>check_arg_stream_dependencies(args, value_names, depend_arg_names)\<close>, lines 610-616.
\<close>

definition check_arg_stream_dependencies :: "args \<Rightarrow> string list \<Rightarrow> string list \<Rightarrow> error + unit" where
  "check_arg_stream_dependencies a value_names depend_arg_names =
     foldE (\<lambda>value_name _.
         bindE (stream_keys a value_name) (\<lambda>keys.
           foldE (\<lambda>key _.
               bindE (any_key_in a key depend_arg_names) (\<lambda>found.
                 if \<not> found
                 then Inl (Exception ''Use of stream option requires use of another with same stream type'')
                 else Inr ()))
             keys ()))
       value_names ()"

text \<open>\<^verbatim>\<open>check_arg_stream_exclusive(args, value_names)\<close>, lines 619-627.\<close>

definition check_arg_stream_exclusive :: "args \<Rightarrow> string list \<Rightarrow> error + unit" where
  "check_arg_stream_exclusive a value_names =
     foldE (\<lambda>value_name _.
         bindE (stream_keys a value_name) (\<lambda>keys.
           foldE (\<lambda>key _.
               bindE (names_with_key a key value_names) (\<lambda>key_names.
                 if length key_names > 1
                 then Inl (Exception ''Mutually exclusive args for stream type'')
                 else Inr ()))
             keys ()))
       value_names ()"

text \<open>
  \<^verbatim>\<open>check_arg_stream_names_dependencies(args, value_names, depend_arg_names, stream_spec)\<close>,
  lines 630-636.
\<close>

definition check_arg_stream_names_dependencies ::
    "args \<Rightarrow> string list \<Rightarrow> string list \<Rightarrow> string \<Rightarrow> error + unit" where
  "check_arg_stream_names_dependencies a value_names depend_arg_names stream_spec =
     bindE (set_names a value_names) (\<lambda>names.
       foldE (\<lambda>value_name _.
           foldE (\<lambda>depend_arg_name _.
               bindE (any_key_in a (PStr stream_spec) depend_arg_names) (\<lambda>found.
                 if \<not> found
                 then Inl (Exception ''Use of argument requires use of a stream option'')
                 else Inr ()))
             depend_arg_names ())
         names ())"

text \<open>
  \<^verbatim>\<open>check_arg_stream_names_exclusive(args, value_names, stream_arg_names, stream_spec)\<close>,
  lines 639-645.
\<close>

definition check_arg_stream_names_exclusive ::
    "args \<Rightarrow> string list \<Rightarrow> string list \<Rightarrow> string \<Rightarrow> error + unit" where
  "check_arg_stream_names_exclusive a value_names stream_arg_names stream_spec =
     bindE (set_names a value_names) (\<lambda>names.
       foldE (\<lambda>value_name _.
           foldE (\<lambda>stream_arg_name _.
               bindE (stream_keys a stream_arg_name) (\<lambda>ks.
                 if PStr stream_spec \<in> set ks
                 then Inl (Exception ''Mutually exclusive arg for stream type'')
                 else Inr ()))
             stream_arg_names ())
         names ())"

text \<open>\<^verbatim>\<open>check_valid_arguments(args)\<close>, lines 648-671: the checks in order, the first
  exception ends them.\<close>

definition check_valid_arguments :: "args \<Rightarrow> error + unit" where
  "check_valid_arguments a =
     bindE (check_arg_stream_dependencies a [''bitrate''] [''codec'', ''addcodec'']) (\<lambda>_.
     bindE (check_arg_stream_dependencies a
              [''addcodec'', ''addstream'', ''addfirst'', ''adddefault'', ''addlang'', ''addlooped'']
              [''addfile'']) (\<lambda>_.
     bindE (check_arg_stream_dependencies a [''addlooped''] [''addcodec'']) (\<lambda>_.
     bindE (check_arg_stream_names_dependencies a
              ([''tune'', ''crf'', ''crop''] @ DEPTH_ARGS @ COLOR_ARGS @ RES_ARGS)
              [''codec'', ''addcodec''] ''v'') (\<lambda>_.
     bindE (check_arg_stream_names_dependencies a CHANNELS_ARGS [''codec'', ''addcodec''] ''a'') (\<lambda>_.
     bindE (check_dependent_args a [''crop''] (RES_ARGS @ [''width'', ''height''])) (\<lambda>_.
     bindE (check_dependent_args a [''addlooped''] LENGTH_ARGS) (\<lambda>_.
     bindE (check_arg_stream_exclusive a [''nocopy'', ''codec'']) (\<lambda>_.
     bindE (check_arg_stream_names_exclusive a RES_ARGS [''nocopy''] ''v'') (\<lambda>_.
     bindE (check_exclusive_args a (RES_ARGS @ [''width''])) (\<lambda>_.
     check_exclusive_args a (RES_ARGS @ [''height''])))))))))))"

section \<open>Probe facts\<close>

text \<open>
  The probing engine is outside the program: \<open>run_probe argv\<close> is the standard output of
  the ffprobe process started with the command line \<open>argv\<close>, decoded and stripped, as
  \<^verbatim>\<open>probe_string\<close> (lines 288-294) returns it.
\<close>

type_synonym ffprobe = "string list \<Rightarrow> string"

definition probe_string :: "ffprobe \<Rightarrow> string \<Rightarrow> string \<Rightarrow> string list \<Rightarrow> string" where
  "probe_string run_probe ffprobe_bin input_file probe_args =
     run_probe ([ffprobe_bin] @ probe_args @ [input_file])"

text \<open>\<^verbatim>\<open>probe_media_property\<close>, lines 297-302.\<close>

definition probe_media_property :: "ffprobe \<Rightarrow> string \<Rightarrow> string \<Rightarrow> string \<Rightarrow> nat \<Rightarrow> string \<Rightarrow> string" where
  "probe_media_property run_probe ffprobe_bin input_file property stream_num stream_spec =
     probe_string run_probe ffprobe_bin input_file
       [''-v'', ''error'', ''-select_streams'', stream_spec @ '':'' @ str_nat stream_num,
        ''-show_entries'', ''stream='' @ property, ''-of'', ''default=nw=1:nk=1'']"

text \<open>
  \<^verbatim>\<open>probe_stream_count\<close>, lines 305-311, returns the probe's output when called with no
  stream type (\<open>probe_stream_types\<close>) and the count of its \<open>codec_type=\<close> lines for a type
  otherwise.
\<close>

definition probe_stream_types :: "ffprobe \<Rightarrow> string \<Rightarrow> string \<Rightarrow> string" where
  "probe_stream_types run_probe ffprobe_bin input_file =
     probe_string run_probe ffprobe_bin input_file
       [''-v'', ''error'', ''-show_entries'', ''stream=codec_type'']"

definition probe_stream_count :: "ffprobe \<Rightarrow> string \<Rightarrow> string \<Rightarrow> string \<Rightarrow> nat" where
  "probe_stream_count run_probe ffprobe_bin input_file stream_type =
     py_count (probe_stream_types run_probe ffprobe_bin input_file) (''codec_type='' @ stream_type)"

text \<open>
  \<^verbatim>\<open>get_stream_count_map_from_input\<close>, lines 711-726: the dictionary from each short
  type code to the count of its long name in the probe's output. The loop looks each code
  of \<open>STREAM_TYPES_SHORT\<close> up in \<open>STREAM_TYPES_DICT\<close>, which is the zip of the two lists.
\<close>

definition get_stream_count_map_from_input :: "ffprobe \<Rightarrow> args \<Rightarrow> string \<Rightarrow> (string \<rightharpoonup> nat)" where
  "get_stream_count_map_from_input run_probe a input_file =
     (let probe_str = probe_stream_types run_probe (ffprobebin a) input_file
      in map_of (map (\<lambda>(t, l). (t, py_count probe_str (''codec_type='' @ l)))
                  (zip STREAM_TYPES_SHORT STREAM_TYPES_LONG)))"

text \<open>\<open>d[k]\<close> on a dictionary: a missing key raises KeyError.\<close>

definition dict_get :: "(string \<rightharpoonup> 'v) \<Rightarrow> string \<Rightarrow> error + 'v" where
  "dict_get d k = (case d k of None \<Rightarrow> Inl (KeyError k) | Some v \<Rightarrow> Inr v)"

section \<open>Stream mapping compiler\<close>

text \<open>
  \<^verbatim>\<open>stream_map_args\<close>, lines 746-775. The loop over the output streams of the group
  carries the command line and \<open>default_stream\<close>, which is cleared once the first stream
  has been marked default. \<open>codec_args[n]\<close> raises IndexError past the end of the list.
\<close>

definition stream_codec_step ::
    "string \<Rightarrow> nat \<Rightarrow> string list list \<Rightarrow> string option \<Rightarrow> nat
       \<Rightarrow> string list \<times> bool option \<Rightarrow> error + string list \<times> bool option" where
  "stream_codec_step spec first_stream codec_args metadata n st =
     (case st of (cmdline, default_stream) \<Rightarrow>
        if length codec_args \<le> n then Inl IndexError
        else
          let cmdline = cmdline @ [''-c:'' @ spec @ '':'' @ str_nat (first_stream + n)] @ codec_args ! n;
              (cmdline, default_stream) =
                (case default_stream of
                   None \<Rightarrow> (cmdline, None)
                 | Some d \<Rightarrow>
                     let cmdline = cmdline @ [''-disposition:'' @ spec @ '':'' @ str_nat (first_stream + n)]
                     in if d then (cmdline @ [''default''], Some False)
                        else (cmdline @ [''none''], Some False));
              cmdline = cmdline @
                (case metadata of
                   Some m \<Rightarrow> if m \<noteq> [] then [''-metadata:s:'' @ spec @ '':'' @ str_nat (first_stream + n), m] else []
                 | None \<Rightarrow> [])
          in Inr (cmdline, default_stream))"

definition stream_map_args ::
    "string \<Rightarrow> nat \<Rightarrow> bool \<Rightarrow> int option \<Rightarrow> nat \<Rightarrow> nat \<Rightarrow> string list list
       \<Rightarrow> string option \<Rightarrow> bool option \<Rightarrow> error + string list" where
  "stream_map_args spec file_index none stream_num first_stream stream_count codec_args
       metadata default_stream =
     (let cmdline = [''-map''] in
      if none then Inr (cmdline @ [''-'' @ str_nat file_index @ '':'' @ spec @ ''?''])
      else
        let cmdline = cmdline @
              (case stream_num of
                 Some i \<Rightarrow> [str_nat file_index @ '':'' @ spec @ '':'' @ str_int i]
               | None \<Rightarrow> [str_nat file_index @ '':'' @ spec @ ''?''])
        in if codec_args \<noteq> []
           then bindE (foldE (stream_codec_step spec first_stream codec_args metadata)
                         [0..<stream_count] (cmdline, default_stream))
                  (\<lambda>(cmdline, _). Inr cmdline)
           else Inr cmdline)"

text \<open>
  \<^verbatim>\<open>stream_map\<close>, lines 778-818. With convert-only the codec name of each stream of the
  group is probed and compared with the requested codec argument.
\<close>

definition stream_map ::
    "ffprobe \<Rightarrow> bool \<Rightarrow> args \<Rightarrow> string \<Rightarrow> nat \<Rightarrow> nat \<Rightarrow> string \<Rightarrow> error + string list" where
  "stream_map run_probe primary a stream_type input_streams first_stream input_file =
     (let encoder = (if primary then stream_type_arg (codec a) stream_type
                     else stream_type_arg (addcodec a) stream_type)
      in bindE (stream_codec_to_encoder stream_type encoder a) (\<lambda>encoder_args.
           let encoder_list =
                 (if primary \<and> encoder_args \<noteq> []
                       \<and> stream_type_bool (map_option str_items (convertonly a)) stream_type
                  then map (\<lambda>n. if Some (probe_media_property run_probe (ffprobebin a) input_file
                                             ''codec_name'' n stream_type) = encoder
                                 then [''copy''] else encoder_args)
                         [first_stream..<first_stream + input_streams]
                  else replicate input_streams encoder_args);
               default_stream =
                 (if primary
                  then (if stream_type_bool (map_option str_items (adddefault a)) stream_type
                        then Some False else None)
                  else (if stream_type_bool (map_option str_items (adddefault a)) stream_type
                        then Some True else None));
               language = (if primary then stream_type_arg (lang a) stream_type
                           else stream_type_arg (addlang a) stream_type);
               metadata = (case language of
                             None \<Rightarrow> None
                           | Some l \<Rightarrow> if l = [] then None else Some (''language='' @ l))
           in stream_map_args stream_type 0
                (stream_type_bool (map_option str_items (nocopy a)) stream_type)
                (stream_type_arg (singlestream a) stream_type)
                first_stream input_streams encoder_list metadata default_stream))"

section \<open>Geometry resolver\<close>

text \<open>\<^verbatim>\<open>get_dimensions_from_args(args)\<close>, lines 685-708.\<close>

definition get_dimensions_from_args :: "args \<Rightarrow> int \<times> int" where
  "get_dimensions_from_args a =
     (if hd_arg a then (1280, 720)
      else if fhd a then (1920, 1080)
      else if qhd a then (2560, 1440)
      else if uhd a then (3840, 2160)
      else ((case width a of Some w \<Rightarrow> w | None \<Rightarrow> 0),
            (case height a of Some h \<Rightarrow> h | None \<Rightarrow> 0)))"

text \<open>\<^verbatim>\<open>printf_filename(input_path)\<close>, lines 314-328.\<close>

definition printf_filename :: "string \<Rightarrow> string" where
  "printf_filename input_path =
     (case rfind input_path CHR ''%'' of
        None \<Rightarrow> input_path
      | Some pct_pos \<Rightarrow>
          (case find_char input_path CHR ''d'' pct_pos of
             None \<Rightarrow> input_path
           | Some d_pos \<Rightarrow>
               (case py_int (take (d_pos - (pct_pos + 1)) (drop (pct_pos + 1) input_path)) of
                  Inl _ \<Rightarrow> input_path
                | Inr chars \<Rightarrow>
                    take pct_pos input_path @ zfill_one chars @ drop (d_pos + 1) input_path)))"

text \<open>
  The aspect ratio of lines 848-862: parsed from the probed \<open>num:den\<close> string, and on any
  exception the ratio of the probed width and height, which can raise in its turn.
\<close>

definition parse_aspect_ratio :: "'f float_ops \<Rightarrow> string \<Rightarrow> error + 'f" where
  "parse_aspect_ratio fl input_ar_str =
     (case find_char input_ar_str CHR '':'' 0 of
        None \<Rightarrow> Inl (Exception ''Bad input aspect ratio string, no colon'')
      | Some colon_pos \<Rightarrow>
          bindE (float_of_str fl (take colon_pos input_ar_str)) (\<lambda>input_ar_num.
          bindE (float_of_str fl (drop (colon_pos + 1) input_ar_str)) (\<lambda>input_ar_den.
          float_div_float fl input_ar_num input_ar_den)))"

text \<open>
  Lines 839-870 of \<^verbatim>\<open>video_filters_from_args\<close>: the probed height, width and aspect ratio
  of the first video stream. A height or width that is no int, and a probed 0, raise.
\<close>

definition probe_input_geometry ::
    "'f float_ops \<Rightarrow> ffprobe \<Rightarrow> args \<Rightarrow> string \<Rightarrow> error + int \<times> int \<times> 'f" where
  "probe_input_geometry fl run_probe a input_path =
     (case py_int (probe_media_property run_probe (ffprobebin a) input_path ''height'' 0 ''v'') of
        Inl _ \<Rightarrow> Inl (Exception ''Failed to query resolution from input'')
      | Inr input_height \<Rightarrow>
     (case py_int (probe_media_property run_probe (ffprobebin a) input_path ''width'' 0 ''v'') of
        Inl _ \<Rightarrow> Inl (Exception ''Failed to query resolution from input'')
      | Inr input_width \<Rightarrow>
          bindE (case parse_aspect_ratio fl
                        (probe_media_property run_probe (ffprobebin a) input_path
                           ''display_aspect_ratio'' 0 ''v'') of
                   Inr r \<Rightarrow> Inr r
                 | Inl _ \<Rightarrow> int_div_int fl input_width input_height) (\<lambda>input_ar.
            if input_width = 0 \<or> input_height = 0
            then Inl (Exception ''Failed to probe input dimensions'')
            else Inr (input_width, input_height, input_ar))))"

text \<open>\<open>pad_resolution(int(output_height * input_ar), args.padding)\<close> and
  \<open>pad_resolution(int(output_width / input_ar), args.padding)\<close>.\<close>

definition width_from_height :: "'f float_ops \<Rightarrow> args \<Rightarrow> int \<Rightarrow> 'f \<Rightarrow> error + int" where
  "width_from_height fl a output_height input_ar =
     bindE (int_mul_float fl output_height input_ar) (\<lambda>x.
     bindE (int_of_float fl x) (\<lambda>n. pad_resolution n (padding a)))"

definition height_from_width :: "'f float_ops \<Rightarrow> args \<Rightarrow> int \<Rightarrow> 'f \<Rightarrow> error + int" where
  "height_from_width fl a output_width input_ar =
     bindE (int_div_float fl output_width input_ar) (\<lambda>x.
     bindE (int_of_float fl x) (\<lambda>n. pad_resolution n (padding a)))"

text \<open>\<open>int((a - b) / 2)\<close>.\<close>

definition half :: "'f float_ops \<Rightarrow> int \<Rightarrow> error + int" where
  "half fl n = bindE (int_div_int fl n 2) (int_of_float fl)"

text \<open>
  The crop origin of lines 894-920. A crop name that is none of the nine leaves
  \<open>xpos\<close> unbound, which raises at its first use (UnboundLocalError).
\<close>

definition crop_origin ::
    "'f float_ops \<Rightarrow> string \<Rightarrow> int \<Rightarrow> int \<Rightarrow> int \<Rightarrow> int \<Rightarrow> error + int \<times> int" where
  "crop_origin fl anchor input_width input_height output_width output_height =
     (if anchor = ''center''
      then bindE (half fl (input_width - output_width)) (\<lambda>xpos.
           bindE (half fl (input_height - output_height)) (\<lambda>ypos. Inr (xpos, ypos)))
      else if anchor = ''topleft'' then Inr (0, 0)
      else if anchor = ''left''
      then bindE (half fl (input_height - output_height)) (\<lambda>ypos. Inr (0, ypos))
      else if anchor = ''bottomleft'' then Inr (0, input_height - output_height)
      else if anchor = ''bottom''
      then bindE (half fl (input_width - output_width)) (\<lambda>xpos.
             Inr (xpos, input_height - output_height))
      else if anchor = ''bottomright''
      then Inr (input_width - output_width, input_height - output_height)
      else if anchor = ''right''
      then bindE (half fl (input_height - output_height)) (\<lambda>ypos.
             Inr (input_width - output_width, ypos))
      else if anchor = ''topright'' then Inr (input_width - output_width, 0)
      else if anchor = ''top''
      then bindE (half fl (input_width - output_width)) (\<lambda>xpos. Inr (xpos, 0))
      else Inl (Exception ''UnboundLocalError: xpos''))"

text \<open>
  Lines 872-946: the resize decision once the input geometry is known. The result is the
  scale or crop filter, if any, and the resolved output dimensions.
\<close>

definition resolve_geometry ::
    "'f float_ops \<Rightarrow> args \<Rightarrow> int \<Rightarrow> int \<Rightarrow> int \<Rightarrow> int \<Rightarrow> 'f
       \<Rightarrow> error + string list \<times> int \<times> int" where
  "resolve_geometry fl a output_width output_height input_width input_height input_ar =
     (if input_width = output_width \<or> input_height = output_height
      then Inr ([], 0, 0)
      else
        bindE (if output_width = 0 then width_from_height fl a output_height input_ar
               else Inr output_width) (\<lambda>output_width.
        bindE (if output_height = 0 then height_from_width fl a output_width input_ar
               else Inr output_height) (\<lambda>output_height.
        if truthy_str (crop a)
        then
          let output_width = (if output_width > input_width then input_width else output_width);
              output_height = (if output_height > input_height then input_height else output_height)
          in bindE (crop_origin fl (case crop a of Some c \<Rightarrow> c | None \<Rightarrow> [])
                      input_width input_height output_width output_height) (\<lambda>(xpos, ypos).
               Inr ([''crop='' @ str_int output_width @ '':'' @ str_int output_height @ '':''
                       @ str_int xpos @ '':'' @ str_int ypos],
                    output_width, output_height))
        else
          bindE (int_div_int fl output_width output_height) (\<lambda>output_ar.
          bindE (if float_less fl input_ar output_ar
                 then bindE (width_from_height fl a output_height input_ar) (\<lambda>w. Inr (w, output_height))
                 else if float_less fl output_ar input_ar
                 then bindE (height_from_width fl a output_width input_ar) (\<lambda>h. Inr (output_width, h))
                 else Inr (output_width, output_height)) (\<lambda>(output_width, output_height).
            Inr ([''scale='' @ str_int output_width @ '':'' @ str_int output_height @ '',setsar=1:1''],
                 output_width, output_height))))))"

text \<open>\<^verbatim>\<open>video_filters_from_args(args, output_width, output_height, input_file)\<close>,
  lines 821-952.\<close>

definition video_filters_from_args ::
    "'f float_ops \<Rightarrow> ffprobe \<Rightarrow> args \<Rightarrow> int \<Rightarrow> int \<Rightarrow> string
       \<Rightarrow> error + string list \<times> int \<times> int" where
  "video_filters_from_args fl run_probe a output_width output_height input_file =
     (let output_vfilters =
            (if sdr a
             then [''scale=in_color_matrix=auto:in_range=auto:out_color_matrix=bt709:out_range=tv'']
             else [])
      in bindE (if output_width \<noteq> 0 \<or> output_height \<noteq> 0
                then
                  let input_path = (if sequence a then printf_filename input_file else input_file)
                  in bindE (probe_input_geometry fl run_probe a input_path)
                       (\<lambda>(input_width, input_height, input_ar).
                          resolve_geometry fl a output_width output_height
                            input_width input_height input_ar)
                else Inr ([], output_width, output_height))
           (\<lambda>(filter_strings, output_width, output_height).
              Inr (output_vfilters @ filter_strings @ (if deshake a then [''deshake''] else []),
                   output_width, output_height)))"

text \<open>\<^verbatim>\<open>audio_filters_from_args(args, input_file)\<close>, lines 955-960: a placeholder.\<close>

definition audio_filters_from_args :: "args \<Rightarrow> string \<Rightarrow> string list" where
  "audio_filters_from_args a input_file = []"

section \<open>Command and suffix assembler\<close>

text \<open>\<^verbatim>\<open>get_container_extension(args, input_file)\<close>, lines 674-682.\<close>

definition get_container_extension :: "args \<Rightarrow> string \<Rightarrow> string" where
  "get_container_extension a input_file =
     (case container a of
        Some c \<Rightarrow> if c \<noteq> [] then ''.'' @ c
                  else slice_from input_file (rfind input_file CHR ''.'')
      | None \<Rightarrow> slice_from input_file (rfind input_file CHR ''.''))"

text \<open>
  \<open>os.path.split(p)[1]\<close> and \<open>os.path.join(a, b)\<close> as \<open>posixpath\<close> defines them.
\<close>

definition path_tail :: "string \<Rightarrow> string" where
  "path_tail p = (case rfind p CHR ''/'' of None \<Rightarrow> p | Some i \<Rightarrow> drop (i + 1) p)"

definition path_join :: "string \<Rightarrow> string \<Rightarrow> string" where
  "path_join x y =
     (if y \<noteq> [] \<and> y ! 0 = CHR ''/'' then y
      else if x = [] \<or> last x = CHR ''/'' then x @ y
      else x @ ''/'' @ y)"

text \<open>
  Lines 1009-1015, one step per stream type: the secondary inputs. The test is
  \<open>stream_type in args.addfile\<close> on the list of [type, path] entries; were it true with no
  path found, the source would append \<open>None\<close> to the tokens, and the model raises there.
\<close>

definition secondary_input_step :: "args \<Rightarrow> string \<Rightarrow> string list \<Rightarrow> error + string list" where
  "secondary_input_step a stream_type cmdline =
     (if stream_type_bool (map_option pair_items (addfile a)) stream_type
      then
        let cmdline = cmdline @
              (if stream_type_bool (map_option str_items (addlooped a)) stream_type
               then [''-stream_loop'', ''-1''] else [])
        in (case stream_type_arg (addfile a) stream_type of
              Some f \<Rightarrow> Inr (cmdline @ [''-i'', f])
            | None \<Rightarrow> Inl (TypeError ''None in the command line''))
      else Inr cmdline)"

text \<open>
  Lines 1023-1038: the stream count of the added group of a stream type. With an add-file
  the count is probed, and a requested \<open>addstream\<close> index is checked against it.
\<close>

definition added_stream_count :: "ffprobe \<Rightarrow> args \<Rightarrow> string \<Rightarrow> error + nat" where
  "added_stream_count run_probe a stream_type =
     (let add_file = stream_type_arg (addfile a) stream_type in
      if truthy_str add_file
      then
        bindE (STREAM_TYPES_DICT stream_type) (\<lambda>long_name.
          let input_add_streams =
                probe_stream_count run_probe (ffprobebin a)
                  (case add_file of Some f \<Rightarrow> f | None \<Rightarrow> []) long_name
          in (case stream_type_arg (addstream a) stream_type of
                Some single_add_stream \<Rightarrow>
                  if single_add_stream + 1 > int input_add_streams
                  then Inl (Exception ''Requested stream index exceeds stream count for added input stream'')
                  else Inr 1
              | None \<Rightarrow> Inr input_add_streams))
      else Inr 0)"

text \<open>
  Lines 1040-1049: the stream count of the primary group: 0 with no-copy, else the probed
  count, or 1 for a requested \<open>singlestream\<close> index, which is checked against it.
\<close>

definition primary_stream_count :: "args \<Rightarrow> (string \<rightharpoonup> nat) \<Rightarrow> string \<Rightarrow> error + nat" where
  "primary_stream_count a input_streams_counts stream_type =
     (if \<not> stream_type_bool (map_option str_items (nocopy a)) stream_type
      then
        bindE (dict_get input_streams_counts stream_type) (\<lambda>input_streams.
          (case stream_type_arg (singlestream a) stream_type of
             Some single_stream \<Rightarrow>
               if single_stream + 1 > int input_streams
               then Inl (Exception ''Requested stream index exceeds stream count for primary input stream'')
               else Inr 1
           | None \<Rightarrow> Inr input_streams))
      else Inr 0)"

text \<open>
  Lines 1022-1066, one step per stream type: the two counts, then the mapping directives
  of the two groups in the order \<open>addfirst\<close> asks for. \<open>stream_map\<close> for the added group is
  only reached with a non-empty \<open>add_file\<close>.
\<close>

definition map_streams_step ::
    "ffprobe \<Rightarrow> args \<Rightarrow> (string \<rightharpoonup> nat) \<Rightarrow> string \<Rightarrow> string \<Rightarrow> string list
       \<Rightarrow> error + string list" where
  "map_streams_step run_probe a input_streams_counts input_file stream_type cmdline =
     bindE (added_stream_count run_probe a stream_type) (\<lambda>input_add_streams.
     bindE (primary_stream_count a input_streams_counts stream_type) (\<lambda>input_streams.
      let add_path = (case stream_type_arg (addfile a) stream_type of Some f \<Rightarrow> f | None \<Rightarrow> []) in
      if \<not> stream_type_bool (map_option str_items (addfirst a)) stream_type
      then
        bindE (if input_streams \<noteq> 0
               then bindE (stream_map run_probe True a stream_type input_streams 0 input_file)
                      (\<lambda>m. Inr (cmdline @ m))
               else Inr cmdline) (\<lambda>cmdline.
          if input_add_streams \<noteq> 0
          then bindE (stream_map run_probe False a stream_type input_add_streams input_streams add_path)
                 (\<lambda>m. Inr (cmdline @ m))
          else Inr cmdline)
      else
        bindE (if input_add_streams \<noteq> 0
               then bindE (stream_map run_probe False a stream_type input_add_streams 0 add_path)
                      (\<lambda>m. Inr (cmdline @ m))
               else Inr cmdline) (\<lambda>cmdline.
          bindE (dict_get input_streams_counts stream_type) (\<lambda>probed.
            if probed \<noteq> 0
            then bindE (stream_map run_probe True a stream_type input_streams input_add_streams input_file)
                   (\<lambda>m. Inr (cmdline @ m))
            else Inr cmdline))))"

text \<open>
  Lines 995-1066 of \<^verbatim>\<open>process_input\<close>: the command line up to the mapping directives:
  the engine binary, the overwrite flag, the flags of an image sequence, the primary
  input, the secondary inputs, the copy-unknown flag, and the mapping directives of each
  stream type in the order of \<open>STREAM_TYPES_SHORT\<close>.
\<close>

definition mapped_command :: "ffprobe \<Rightarrow> args \<Rightarrow> string \<Rightarrow> error + string list" where
  "mapped_command run_probe a input_file =
     (let input_streams_counts = get_stream_count_map_from_input run_probe a input_file;
          cmdline = [ffmpegbin a];
          cmdline = cmdline @ (if overwrite a then [''-y''] else []);
          cmdline = cmdline @ (if sequence a then [''-r'', framerate a, ''-f'', ''image2''] else []);
          cmdline = cmdline @ [''-i'', input_file]
      in bindE (foldE (secondary_input_step a) STREAM_TYPES_SHORT cmdline) (\<lambda>cmdline.
           let cmdline = cmdline @ (if \<not> nounknown a then [''-copy_unknown''] else [])
           in foldE (map_streams_step run_probe a input_streams_counts input_file)
                STREAM_TYPES_SHORT cmdline))"

text \<open>
  Lines 1068-1090: the video and the audio filter chain, each skipped with no-copy for
  its type. The result carries the output dimensions as the video filters resolved them.
\<close>

definition filtered_command ::
    "'f float_ops \<Rightarrow> ffprobe \<Rightarrow> args \<Rightarrow> string \<Rightarrow> int \<Rightarrow> int \<Rightarrow> string list
       \<Rightarrow> error + string list \<times> int \<times> int" where
  "filtered_command fl run_probe a input_file output_width output_height cmdline =
     bindE (if \<not> stream_type_bool (map_option str_items (nocopy a)) ''v''
            then bindE (video_filters_from_args fl run_probe a output_width output_height input_file)
                   (\<lambda>(output_vfilters, w, h).
                      Inr (cmdline @ (if output_vfilters \<noteq> []
                                      then [''-vf'', join '','' output_vfilters] else []),
                           w, h))
            else Inr (cmdline, output_width, output_height))
       (\<lambda>(cmdline, output_width, output_height).
          Inr (cmdline @
                 (if \<not> stream_type_bool (map_option str_items (nocopy a)) ''a''
                  then (let output_afilters = audio_filters_from_args a input_file
                        in if output_afilters \<noteq> [] then [''-af'', join '','' output_afilters] else [])
                  else []),
               output_width, output_height))"

text \<open>
  Lines 1092-1112: the end-of-encode directive, the chapter-strip and the metadata-strip
  directive, and the attachment directive.
\<close>

definition closing_directives :: "args \<Rightarrow> string list" where
  "closing_directives a =
     (if shortest a then [''-shortest'']
      else (case duration a of
              Some d \<Rightarrow> if d \<noteq> [] then [''-t'', d] else []
            | None \<Rightarrow> []))
     @ (if \<not> stream_type_bool (map_option str_items (nocopy a)) ''c''
        then [''-map_chapters'', ''-1''] else [])
     @ (if \<not> stream_type_bool (map_option str_items (nocopy a)) ''m''
        then [''-map_metadata'', ''-1''] else [])
     @ (case addattach a of
          Some f \<Rightarrow> if f \<noteq> []
                    then [''-attach'', f, ''-metadata:s:t'', ''mimetype='' @ attachtype a]
                    else []
        | None \<Rightarrow> [])"

text \<open>
  Lines 1114-1130: the output file, inside the output directory under the input's name
  with the container's extension, or the output as given; with \<open>-suffix\<close> the suffix is
  put before the last dot. \<open>isdir\<close> is \<open>os.path.isdir\<close>.
\<close>

definition output_file_name ::
    "(string \<Rightarrow> bool) \<Rightarrow> args \<Rightarrow> string \<Rightarrow> int \<Rightarrow> int \<Rightarrow> error + string" where
  "output_file_name isdir a input_file output_width output_height =
     (let input_filename = path_tail input_file;
          output_extension = get_container_extension a input_file;
          output_file =
            (if isdir (output_arg a)
             then path_join (output_arg a)
                    (slice_to input_filename (rfind input_filename CHR ''.'') @ output_extension)
             else output_arg a)
      in if suffix a
         then bindE (suffix_str a output_width output_height) (\<lambda>sfx.
                let dotpos = rfind output_file CHR ''.''
                in Inr (slice_to output_file dotpos @ sfx @ slice_from output_file dotpos))
         else Inr output_file)"

text \<open>
  The body of the loop of \<^verbatim>\<open>process_input\<close> up to the finished command line, lines
  970-1139, for one input file: \<open>Inl\<close> when the file is given up (a file name with no
  extension, or any exception while the command line is built), else the command line
  and the output file.
\<close>

definition compile_file ::
    "'f float_ops \<Rightarrow> ffprobe \<Rightarrow> (string \<Rightarrow> bool) \<Rightarrow> args \<Rightarrow> string
       \<Rightarrow> error + string list \<times> string" where
  "compile_file fl run_probe isdir a input_file =
     (if CHR ''.'' \<notin> set (path_tail input_file)
      then Inl (Exception ''Input file name contains no extension'')
      else
        let (output_width, output_height) = get_dimensions_from_args a in
        bindE (mapped_command run_probe a input_file) (\<lambda>cmdline.
        bindE (filtered_command fl run_probe a input_file output_width output_height cmdline)
          (\<lambda>(cmdline, output_width, output_height).
        let cmdline = cmdline @ closing_directives a in
        bindE (output_file_name isdir a input_file output_width output_height) (\<lambda>output_file.
        Inr (cmdline @ [output_file], output_file)))))"

text \<open>
  \<^verbatim>\<open>process_input(input_files, args)\<close>, lines 963-1167. The state of the loop is the error
  counter and, as what the batch does, the command lines handed to the engine (or shown,
  in a dry run) so far. \<open>run_ffmpeg\<close> is the exit status of the engine on a command line.
  With \<open>setaffinity\<close>, \<^verbatim>\<open>run_with_afinity\<close> (lines 350-364) slices the set
  \<open>os.sched_getaffinity\<close> returns, which raises TypeError outside any handler. The batch
  ends by returning the counter, by \<open>exit(returncode)\<close> (stop on error) or by that exception.
\<close>

record batch_state =
  err_count :: nat
  commands :: "string list list"

datatype batch_result =
    Returned batch_state
  | SystemExit int batch_state
  | Raised error batch_state

fun process_loop ::
    "'f float_ops \<Rightarrow> ffprobe \<Rightarrow> (string \<Rightarrow> bool) \<Rightarrow> (string list \<Rightarrow> int) \<Rightarrow> args
       \<Rightarrow> string list \<Rightarrow> batch_state \<Rightarrow> batch_result" where
  "process_loop fl run_probe isdir run_ffmpeg a [] st = Returned st"
| "process_loop fl run_probe isdir run_ffmpeg a (input_file # rest) st =
     (case compile_file fl run_probe isdir a input_file of
        Inl e \<Rightarrow>
          process_loop fl run_probe isdir run_ffmpeg a rest (st\<lparr>err_count := err_count st + 1\<rparr>)
      | Inr (cmdline, output_file) \<Rightarrow>
          let st = st\<lparr>commands := commands st @ [cmdline]\<rparr> in
          if dryrun a then process_loop fl run_probe isdir run_ffmpeg a rest st
          else if setaffinity a then Raised (TypeError ''set object is not subscriptable'') st
          else
            let returncode = run_ffmpeg cmdline in
            if returncode \<noteq> 0
            then
              let st = st\<lparr>err_count := err_count st + 1\<rparr> in
              if stoponerror a then SystemExit returncode st
              else process_loop fl run_probe isdir run_ffmpeg a rest st
            else process_loop fl run_probe isdir run_ffmpeg a rest st)"

definition process_input ::
    "'f float_ops \<Rightarrow> ffprobe \<Rightarrow> (string \<Rightarrow> bool) \<Rightarrow> (string list \<Rightarrow> int) \<Rightarrow> args
       \<Rightarrow> string list \<Rightarrow> batch_result" where
  "process_input fl run_probe isdir run_ffmpeg a input_files =
     process_loop fl run_probe isdir run_ffmpeg a input_files \<lparr>err_count = 0, commands = []\<rparr>"

text \<open>
  \<^verbatim>\<open>main(argv)\<close>, lines 1170-1231, from the parsed namespace on. \<open>isfile\<close>, \<open>glob\<close> and
  \<open>platform_system\<close> are \<open>os.path.isfile\<close>, \<open>glob.glob\<close> and \<open>platform.system()\<close>. The result
  is the errno value returned before the batch starts (ENOENT 2, EFAULT 14, EINVAL 22),
  or the result of the batch.
\<close>

datatype main_result = NotStarted int | Ran batch_result

definition main ::
    "'f float_ops \<Rightarrow> ffprobe \<Rightarrow> (string \<Rightarrow> bool) \<Rightarrow> (string \<Rightarrow> bool) \<Rightarrow> (string \<Rightarrow> string list)
       \<Rightarrow> string \<Rightarrow> (string list \<Rightarrow> int) \<Rightarrow> args \<Rightarrow> main_result" where
  "main fl run_probe isdir isfile glob platform_system run_ffmpeg a =
     (let input_files =
            (if isfile (input_arg a) then [input_arg a]
             else if sequence a \<and> CHR ''%'' \<in> set (input_arg a) then [input_arg a]
             else glob (input_arg a))
      in if input_files = [] then NotStarted 2
         else if length input_files > 1 \<and> \<not> isdir (output_arg a) then NotStarted 14
         else if truthy_str (addattach a)
                   \<and> \<not> isfile (case addattach a of Some f \<Rightarrow> f | None \<Rightarrow> [])
         then NotStarted 2
         else
           let a = (if setaffinity a \<and> platform_system \<notin> set [''Linux'', ''Unix'']
                    then a\<lparr>setaffinity := False\<rparr> else a)
           in (case check_valid_arguments a of
                 Inl e \<Rightarrow> NotStarted 22
               | Inr _ \<Rightarrow> Ran (process_input fl run_probe isdir run_ffmpeg a input_files)))"

section \<open>Example inputs\<close>

text \<open>
  The namespace of the command line \<^verbatim>\<open>ffmpeg-cnvt.py in.mkv out.mkv\<close>: every option at its
  argparse default.
\<close>

definition default_args :: args where
  "default_args =
     \<lparr>input_arg = ''in.mkv'', output_arg = ''out.mkv'', container = None, codec = None,
      bitrate = None, lang = None, nocopy = None, singlestream = None, convertonly = None,
      addfile = None, addcodec = None, addstream = None, addfirst = None, adddefault = None,
      addlang = None, addlooped = None, mono_arg = False, stereo = False, preset = None,
      tune = None, tier = None, crf = None, deshake = False, bit8 = False, bit10 = False,
      sdr = False, hdr = False, hd_arg = False, fhd = False, qhd = False, uhd = False,
      width = None, height = None, crop = None, padding = 4, sequence = False,
      framerate = ''30000/1001'', nounknown = False, addattach = None,
      attachtype = ''application/octet-stream'', shortest = False, duration = None,
      stoponerror = False, setaffinity = False, dryrun = False, overwrite = False,
      ffmpegbin = ''ffmpeg'', ffprobebin = ''ffprobe'', suffix = False\<rparr>"

text \<open>
  A probe that answers from fixed facts: the long type name of each stream of the file,
  the codec name per stream specifier (\<open>a:0\<close>, \<open>v:1\<close>, ...), and the height, width and
  display aspect ratio of the first video stream. The same facts are reported for every
  file.
\<close>

definition example_probe ::
    "string list \<Rightarrow> (string \<Rightarrow> string) \<Rightarrow> string \<Rightarrow> string \<Rightarrow> string \<Rightarrow> ffprobe" where
  "example_probe types codec_of h w dar argv =
     (if ''stream=codec_type'' \<in> set argv
      then join [CHR 0x0A] (map (\<lambda>t. ''codec_type='' @ t) types)
      else if ''stream=codec_name'' \<in> set argv then codec_of (argv ! 4)
      else if ''stream=height'' \<in> set argv then h
      else if ''stream=width'' \<in> set argv then w
      else if ''stream=display_aspect_ratio'' \<in> set argv then dar
      else [])"

text \<open>
  An exact arithmetic on fractions, standing in for the floats where an example is
  evaluated: \<open>(n, d)\<close> is \<open>n / d\<close>, and \<open>int\<close> truncates toward zero.
\<close>

definition frac_less :: "int \<times> int \<Rightarrow> int \<times> int \<Rightarrow> bool" where
  "frac_less x y = (case (x, y) of ((n1, d1), (n2, d2)) \<Rightarrow>
     n1 * d2 * sgn (d1 * d2) < n2 * d1 * sgn (d1 * d2))"

definition frac_trunc :: "int \<times> int \<Rightarrow> error + int" where
  "frac_trunc x = (case x of (n, d) \<Rightarrow>
     if d = 0 then Inl OverflowError else Inr (sgn n * sgn d * (\<bar>n\<bar> div \<bar>d\<bar>)))"

definition frac_ops :: "(int \<times> int) float_ops" where
  "frac_ops =
     \<lparr>float_of_str = (\<lambda>s. case py_int s of Inl e \<Rightarrow> Inl e | Inr n \<Rightarrow> Inr (n, 1)),
      int_div_int = (\<lambda>x y. if y = 0 then Inl ZeroDivisionError else Inr (x, y)),
      float_div_float = (\<lambda>x y. case (x, y) of ((n1, d1), (n2, d2)) \<Rightarrow>
         if n2 = 0 then Inl ZeroDivisionError else Inr (n1 * d2, d1 * n2)),
      int_div_float = (\<lambda>k y. case y of (n, d) \<Rightarrow>
         if n = 0 then Inl ZeroDivisionError else Inr (k * d, n)),
      int_mul_float = (\<lambda>k y. case y of (n, d) \<Rightarrow> Inr (k * n, d)),
      int_of_float = frac_trunc,
      float_less = frac_less\<rparr>"

section \<open>Reading the option set\<close>

text \<open>The stream types a [type, value] option is set for, in the order given.\<close>

definition option_keys :: "(string \<times> 'v) list option \<Rightarrow> string list" where
  "option_keys opt = (case opt of None \<Rightarrow> [] | Some xs \<Rightarrow> map fst xs)"

text \<open>
  For statements about the tokens of a command: a token list that holds neither strip
  flag; an option list with \<open>None\<close> read as empty; and a token list that holds \<open>x\<close>
  immediately followed by \<open>y\<close>, which is how a directive with its value stands in a
  command.
\<close>

definition no_strip_flag :: "string list \<Rightarrow> bool" where
  "no_strip_flag toks = (''-map_chapters'' \<notin> set toks \<and> ''-map_metadata'' \<notin> set toks)"

definition option_list :: "'a list option \<Rightarrow> 'a list" where
  "option_list opt = (case opt of None \<Rightarrow> [] | Some xs \<Rightarrow> xs)"






text \<open>
  Two probes report the same facts to the compilation of \<open>input_file\<close> under the option
  set \<open>a\<close>: the same stream types for the file and for every file named by \<open>addfile\<close>
  (from which all stream counts are taken), the same codec name for every stream of the
  file, and the same height, width and display aspect ratio for the first video stream of
  the path the geometry is probed on. The probes may differ on every other query.
\<close>

definition same_probe_facts :: "args \<Rightarrow> string \<Rightarrow> ffprobe \<Rightarrow> ffprobe \<Rightarrow> bool" where
  "same_probe_facts a input_file p1 p2 =
     (probe_stream_types p1 (ffprobebin a) input_file = probe_stream_types p2 (ffprobebin a) input_file
      \<and> (\<forall>g. g \<in> snd ` set (option_list (addfile a)) \<longrightarrow>
             probe_stream_types p1 (ffprobebin a) g = probe_stream_types p2 (ffprobebin a) g)
      \<and> (\<forall>n t. probe_media_property p1 (ffprobebin a) input_file ''codec_name'' n t
                 = probe_media_property p2 (ffprobebin a) input_file ''codec_name'' n t)
      \<and> (\<forall>property. property \<in> set [''height'', ''width'', ''display_aspect_ratio''] \<longrightarrow>
             probe_media_property p1 (ffprobebin a)
               (if sequence a then printf_filename input_file else input_file) property 0 ''v''
             = probe_media_property p2 (ffprobebin a)
               (if sequence a then printf_filename input_file else input_file) property 0 ''v''))"

text \<open>
  The suffix the loop body of \<^verbatim>\<open>process_input\<close> inserts into the output file name, lines
  1124-1125: \<open>suffix_str\<close> at the output dimensions as the video filters resolved them,
  when the suffix option is set; the empty string stands for no suffix. It fails where
  the loop body fails before that line.
\<close>

definition file_suffix :: "'f float_ops \<Rightarrow> ffprobe \<Rightarrow> args \<Rightarrow> string \<Rightarrow> error + string" where
  "file_suffix fl run_probe a input_file =
     (if CHR ''.'' \<notin> set (path_tail input_file)
      then Inl (Exception ''Input file name contains no extension'')
      else
        let (output_width, output_height) = get_dimensions_from_args a in
        bindE (mapped_command run_probe a input_file) (\<lambda>cmdline.
        bindE (filtered_command fl run_probe a input_file output_width output_height cmdline)
          (\<lambda>(cmdline, output_width, output_height).
             if suffix a then suffix_str a output_width output_height else Inr [])))"

section \<open>Properties\<close>

subsection \<open>Basic facts\<close>

lemma bindE_Inl [simp]: "bindE (Inl e) f = Inl e"
  by (simp add: bindE_def)

lemma bindE_Inr [simp]: "bindE (Inr x) f = f x"
  by (simp add: bindE_def)

lemma foldE_fails:
  "x \<in> set xs \<Longrightarrow> (\<And>s. \<exists>e. f x s = Inl e) \<Longrightarrow> \<exists>e. foldE f xs s = Inl e"
proof (induction xs arbitrary: s)
  case Nil
  then show ?case by simp
next
  case (Cons y ys)
  show ?case
  proof (cases "f y s")
    case (Inl e)
    then show ?thesis by simp
  next
    case (Inr s')
    show ?thesis
    proof (cases "x = y")
      case True
      with Cons.prems(2) [of s] Inr show ?thesis by simp
    next
      case False
      with Cons.prems have "x \<in> set ys" by simp
      from Cons.IH [OF this Cons.prems(2)] Inr show ?thesis by simp
    qed
  qed
qed

lemma stream_type_bool_pairs [simp]:
  "stream_type_bool (map_option pair_items opt) t = False"
  by (cases opt) (auto simp: stream_type_bool_def pair_items_def)

lemma str_nat_0 [simp]: "str_nat 0 = ''0''"
  by (simp add: str_nat.simps digit_char_def)

lemma bindE_fails_left: "\<exists>e. m = Inl e \<Longrightarrow> \<exists>e. bindE m g = Inl e"
  by auto

lemma bindE_fails_right: "(\<And>x. \<exists>e. g x = Inl e) \<Longrightarrow> \<exists>e. bindE m g = Inl e"
  by (cases m) auto

subsection \<open>The tokens of a compiled command\<close>

lemma no_strip_flag_Nil [simp]: "no_strip_flag []"
  by (simp add: no_strip_flag_def)

lemma no_strip_flag_Cons [simp]:
  "no_strip_flag (x # xs) = (x \<noteq> ''-map_chapters'' \<and> x \<noteq> ''-map_metadata'' \<and> no_strip_flag xs)"
  by (auto simp: no_strip_flag_def)

lemma no_strip_flag_append [simp]:
  "no_strip_flag (xs @ ys) = (no_strip_flag xs \<and> no_strip_flag ys)"
  by (auto simp: no_strip_flag_def)


lemma foldE_invariant:
  assumes "\<And>x s s'. I s \<Longrightarrow> f x s = Inr s' \<Longrightarrow> I s'"
    and "I s" and "foldE f xs s = Inr s'"
  shows "I s'"
  using assms(2,3)
proof (induction xs arbitrary: s)
  case Nil
  then show ?case by simp
next
  case (Cons x xs)
  show ?case
  proof (cases "f x s")
    case (Inl e)
    with Cons.prems show ?thesis by simp
  next
    case (Inr s1)
    with Cons.prems assms(1) have "I s1" "foldE f xs s1 = Inr s'" by auto
    then show ?thesis by (rule Cons.IH)
  qed
qed

lemma video_codec_requested_raises: "\<exists>e. video_codec_to_encoder (Some c) a = Inl e"
  by (simp add: video_codec_to_encoder_def args_vbitrate_def Let_def)

lemma video_encoder_tokens:
  "video_codec_to_encoder enc a = Inr ea \<Longrightarrow> ea = [''copy'']"
proof (cases enc)
  case None
  assume "video_codec_to_encoder enc a = Inr ea"
  with None show ?thesis by (simp add: video_codec_to_encoder_def)
next
  case (Some c)
  assume "video_codec_to_encoder enc a = Inr ea"
  with Some video_codec_requested_raises [of c a] show ?thesis by auto
qed

lemma audio_encoder_tokens:
  assumes "audio_codec_to_encoder enc a = Inr ea"
  shows "no_strip_flag ea"
proof (cases enc)
  case None
  with assms show ?thesis by (auto simp: audio_codec_to_encoder_def)
next
  case (Some c)
  with assms have "c \<in> set AUDIO_CODECS"
    by (auto simp: audio_codec_to_encoder_def split: if_splits)
  then have "c \<noteq> ''-map_chapters''" "c \<noteq> ''-map_metadata''"
    by (auto simp: AUDIO_CODECS_def)
  with assms Some show ?thesis
    by (auto simp: audio_codec_to_encoder_def Let_def split: if_splits)
qed

lemma subtitle_encoder_tokens:
  assumes "subtitle_codec_to_encoder enc a = Inr ea"
  shows "no_strip_flag ea"
proof (cases enc)
  case None
  with assms show ?thesis by (auto simp: subtitle_codec_to_encoder_def)
next
  case (Some c)
  with assms have "c \<in> set SUBTITLE_CODECS"
    by (auto simp: subtitle_codec_to_encoder_def split: if_splits)
  then have "c \<noteq> ''-map_chapters''" "c \<noteq> ''-map_metadata''"
    by (auto simp: SUBTITLE_CODECS_def)
  with assms Some show ?thesis
    by (auto simp: subtitle_codec_to_encoder_def Let_def split: if_splits)
qed

lemma stream_codec_to_encoder_cases:
  assumes "stream_codec_to_encoder t enc a = Inr ea"
  shows "video_codec_to_encoder enc a = Inr ea \<or> audio_codec_to_encoder enc a = Inr ea
       \<or> subtitle_codec_to_encoder enc a = Inr ea \<or> ea = []"
proof -
  let ?m = "if t = ''v'' then video_codec_to_encoder enc a
            else if t = ''a'' then audio_codec_to_encoder enc a
            else if t = ''s'' then subtitle_codec_to_encoder enc a
            else Inr []"
  from assms have "bindE ?m Inr = Inr ea"
    by (simp add: stream_codec_to_encoder_def)
  then have "?m = Inr ea" by (cases ?m) simp_all
  then show ?thesis by (simp split: if_splits)
qed

lemma encoder_tokens:
  assumes "stream_codec_to_encoder t enc a = Inr ea"
  shows "no_strip_flag ea"
  using stream_codec_to_encoder_cases [OF assms]
    video_encoder_tokens audio_encoder_tokens subtitle_encoder_tokens
  by fastforce


lemma bindE_eq_Inr: "bindE m g = Inr y \<Longrightarrow> \<exists>x. m = Inr x \<and> g x = Inr y"
  by (cases m) simp_all

lemma stream_codec_step_tokens:
  assumes "stream_codec_step spec first ca md n (c, d) = Inr (c', d')"
    and "no_strip_flag c" and "\<forall>l \<in> set ca. no_strip_flag l"
    and "\<forall>m. md = Some m \<longrightarrow> no_strip_flag [m]"
  shows "no_strip_flag c'"
proof -
  from assms(1) have n: "n < length ca"
    by (auto simp: stream_codec_step_def split: if_splits)
  with assms(3) have "no_strip_flag (ca ! n)" by simp
  with assms n show ?thesis
    by (auto simp: stream_codec_step_def Let_def split: if_splits option.splits)
qed

lemma stream_map_args_tokens:
  assumes "stream_map_args spec 0 none sn first cnt ca md ds = Inr toks"
    and "\<forall>l \<in> set ca. no_strip_flag l"
    and "\<forall>m. md = Some m \<longrightarrow> no_strip_flag [m]"
  shows "no_strip_flag toks"
proof (cases "none \<or> ca = []")
  case True
  with assms(1) show ?thesis
    by (auto simp: stream_map_args_def Let_def split: option.splits if_splits)
next
  case False
  let ?c = "[''-map'', (case sn of Some i \<Rightarrow> ''0:'' @ spec @ '':'' @ str_int i | None \<Rightarrow> ''0:'' @ spec @ ''?'')]"
  from assms(1) False have
    "bindE (foldE (stream_codec_step spec first ca md) [0..<cnt] (?c, ds)) (\<lambda>(cmdline, _). Inr cmdline)
       = Inr toks"
    by (auto simp: stream_map_args_def Let_def split: option.splits)
  from bindE_eq_Inr [OF this] obtain d' where
    f: "foldE (stream_codec_step spec first ca md) [0..<cnt] (?c, ds) = Inr (toks, d')"
    by auto
  have i: "no_strip_flag (fst (?c, ds))" by (simp split: option.splits)
  have "no_strip_flag (fst (toks, d'))"
  proof (rule foldE_invariant [where I = "\<lambda>s. no_strip_flag (fst s)", OF _ i f])
    fix x s s'
    assume "no_strip_flag (fst s)" "stream_codec_step spec first ca md x s = Inr s'"
    then show "no_strip_flag (fst s')"
      using stream_codec_step_tokens [of spec first ca md x "fst s" "snd s" "fst s'" "snd s'"] assms(2,3)
      by simp
  qed
  then show ?thesis by simp
qed

lemma stream_map_tokens:
  assumes "stream_map run_probe primary a t n first f = Inr toks"
  shows "no_strip_flag toks"
proof -
  define enc where "enc = (if primary then stream_type_arg (codec a) t
                           else stream_type_arg (addcodec a) t)"
  from assms have "bindE (stream_codec_to_encoder t enc a) (\<lambda>ea.
      stream_map_args t 0 (stream_type_bool (map_option str_items (nocopy a)) t)
        (stream_type_arg (singlestream a) t) first n
        (if primary \<and> ea \<noteq> [] \<and> stream_type_bool (map_option str_items (convertonly a)) t
         then map (\<lambda>k. if Some (probe_media_property run_probe (ffprobebin a) f ''codec_name'' k t) = enc
                        then [''copy''] else ea) [first..<first + n]
         else replicate n ea)
        (case (if primary then stream_type_arg (lang a) t else stream_type_arg (addlang a) t) of
           None \<Rightarrow> None | Some l \<Rightarrow> if l = [] then None else Some (''language='' @ l))
        (if primary
         then (if stream_type_bool (map_option str_items (adddefault a)) t then Some False else None)
         else (if stream_type_bool (map_option str_items (adddefault a)) t then Some True else None)))
      = Inr toks"
    unfolding stream_map_def Let_def enc_def .
  from bindE_eq_Inr [OF this] obtain ea el md ds where
    ea: "stream_codec_to_encoder t enc a = Inr ea"
    and sm: "stream_map_args t 0 (stream_type_bool (map_option str_items (nocopy a)) t)
        (stream_type_arg (singlestream a) t) first n el md ds = Inr toks"
    and el: "el = (if primary \<and> ea \<noteq> [] \<and> stream_type_bool (map_option str_items (convertonly a)) t
         then map (\<lambda>k. if Some (probe_media_property run_probe (ffprobebin a) f ''codec_name'' k t) = enc
                        then [''copy''] else ea) [first..<first + n]
         else replicate n ea)"
    and md: "md = (case (if primary then stream_type_arg (lang a) t else stream_type_arg (addlang a) t) of
           None \<Rightarrow> None | Some l \<Rightarrow> if l = [] then None else Some (''language='' @ l))"
    by blast
  from encoder_tokens [OF ea] have nea: "no_strip_flag ea" .
  have "\<forall>l \<in> set el. l = [''copy''] \<or> l = ea" unfolding el by auto
  with nea have 1: "\<forall>l \<in> set el. no_strip_flag l" by auto
  have 2: "\<forall>m. md = Some m \<longrightarrow> no_strip_flag [m]"
    unfolding md by (auto split: option.splits if_splits)
  from stream_map_args_tokens [OF sm 1 2] show ?thesis .
qed

lemma bindE_InrE:
  assumes "bindE m g = Inr y"
  obtains x where "m = Inr x" and "g x = Inr y"
  using assms by (cases m) simp_all

lemma map_streams_step_tokens:
  assumes "map_streams_step run_probe a counts f t c = Inr c'" and "no_strip_flag c"
  shows "no_strip_flag c'"
  using assms unfolding map_streams_step_def Let_def
  by (auto elim!: bindE_InrE split: if_splits dest!: stream_map_tokens)

lemma secondary_input_step_id: "secondary_input_step a t c = Inr c"
  by (simp add: secondary_input_step_def)

lemma secondary_inputs_id: "foldE (secondary_input_step a) ts c = Inr c"
  by (induction ts) (simp_all add: secondary_input_step_id)

lemma map_streams_tokens:
  assumes "foldE (map_streams_step run_probe a counts f) ts c = Inr c'" and "no_strip_flag c"
  shows "no_strip_flag c'"
  by (rule foldE_invariant [where I = no_strip_flag, OF _ assms(2) assms(1)])
     (rule map_streams_step_tokens)


lemma join_head:
  "xs \<noteq> [] \<Longrightarrow> hd xs \<noteq> [] \<Longrightarrow> join sep xs \<noteq> [] \<and> hd (join sep xs) = hd (hd xs)"
proof (cases xs)
  case Nil
  assume "xs \<noteq> []"
  with Nil show ?thesis by simp
next
  case (Cons x ys)
  assume "hd xs \<noteq> []"
  with Cons show ?thesis by (cases ys) auto
qed

lemma resolve_geometry_filters:
  assumes "resolve_geometry fl a ow oh iw ih ar = Inr (fs, w, h)"
  shows "\<forall>x \<in> set fs. x \<noteq> [] \<and> hd x \<noteq> CHR ''-''"
  using assms unfolding resolve_geometry_def Let_def
  by (auto elim!: bindE_InrE split: if_splits prod.splits)

lemma video_filters_shape:
  assumes "video_filters_from_args fl run_probe a ow oh f = Inr (vf, w, h)"
  shows "\<forall>x \<in> set vf. x \<noteq> [] \<and> hd x \<noteq> CHR ''-''"
proof -
  let ?sdr = "if sdr a
              then [''scale=in_color_matrix=auto:in_range=auto:out_color_matrix=bt709:out_range=tv'']
              else []"
  from assms obtain r where
    g: "(if ow \<noteq> 0 \<or> oh \<noteq> 0
         then bindE (probe_input_geometry fl run_probe a
                       (if sequence a then printf_filename f else f))
                (\<lambda>(input_width, input_height, input_ar).
                   resolve_geometry fl a ow oh input_width input_height input_ar)
         else Inr ([], ow, oh)) = Inr r"
    and vf: "vf = ?sdr @ fst r @ (if deshake a then [''deshake''] else [])"
    unfolding video_filters_from_args_def Let_def
    by (elim bindE_InrE) (simp add: split_def)
  have "\<forall>x \<in> set (fst r). x \<noteq> [] \<and> hd x \<noteq> CHR ''-''"
  proof (cases "ow \<noteq> 0 \<or> oh \<noteq> 0")
    case False
    with g show ?thesis by auto
  next
    case True
    with g obtain p where
      "resolve_geometry fl a ow oh (fst p) (fst (snd p)) (snd (snd p)) = Inr r"
      by (simp only: if_True) (elim bindE_InrE, simp add: split_def)
    then have "resolve_geometry fl a ow oh (fst p) (fst (snd p)) (snd (snd p))
                 = Inr (fst r, fst (snd r), snd (snd r))" by simp
    from resolve_geometry_filters [OF this] show ?thesis .
  qed
  then show ?thesis unfolding vf by auto
qed

lemma joined_filters_no_flag:
  assumes "\<forall>x \<in> set vf. x \<noteq> [] \<and> hd x \<noteq> CHR ''-''" and "vf \<noteq> []"
  shows "no_strip_flag [join '','' vf]"
proof -
  from assms have "hd vf \<noteq> []" "hd (hd vf) \<noteq> CHR ''-''" by (cases vf; simp)+
  with join_head [OF assms(2), of "'',''"] have h: "hd (join '','' vf) \<noteq> CHR ''-''" by simp
  have "join '','' vf \<noteq> ''-map_chapters''"
  proof
    assume "join '','' vf = ''-map_chapters''"
    then have "hd (join '','' vf) = CHR ''-''" by simp
    with h show False by simp
  qed
  moreover have "join '','' vf \<noteq> ''-map_metadata''"
  proof
    assume "join '','' vf = ''-map_metadata''"
    then have "hd (join '','' vf) = CHR ''-''" by simp
    with h show False by simp
  qed
  ultimately show ?thesis by simp
qed

lemma filtered_command_tokens:
  assumes "filtered_command fl run_probe a f ow oh c = Inr (c', w, h)" and "no_strip_flag c"
  shows "no_strip_flag c'"
proof -
  from assms(1) obtain c1 w1 h1 where
    v: "(if \<not> stream_type_bool (map_option str_items (nocopy a)) ''v''
         then bindE (video_filters_from_args fl run_probe a ow oh f)
                (\<lambda>(output_vfilters, w, h).
                   Inr (c @ (if output_vfilters \<noteq> []
                             then [''-vf'', join '','' output_vfilters] else []), w, h))
         else Inr (c, ow, oh)) = Inr (c1, w1, h1)"
    and c': "c' = c1" 
    unfolding filtered_command_def
    by (elim bindE_InrE) (auto simp: audio_filters_from_args_def)
  have "no_strip_flag c1"
  proof (cases "stream_type_bool (map_option str_items (nocopy a)) ''v''")
    case True
    with v assms(2) show ?thesis by simp
  next
    case False
    with v obtain vf where vf: "video_filters_from_args fl run_probe a ow oh f = Inr (vf, w1, h1)"
      and c1: "c1 = c @ (if vf \<noteq> [] then [''-vf'', join '','' vf] else [])"
      by (auto elim!: bindE_InrE)
    from video_filters_shape [OF vf] joined_filters_no_flag
    have "vf \<noteq> [] \<Longrightarrow> no_strip_flag [join '','' vf]" by blast
    with c1 assms(2) show ?thesis by (cases "vf = []") simp_all
  qed
  with c' show ?thesis by simp
qed


lemma mapped_command_tokens:
  assumes "mapped_command run_probe a f = Inr c"
    and "no_strip_flag [ffmpegbin a, framerate a, f]"
  shows "no_strip_flag c"
proof -
  let ?start = "[ffmpegbin a] @ (if overwrite a then [''-y''] else [])
       @ (if sequence a then [''-r'', framerate a, ''-f'', ''image2''] else []) @ [''-i'', f]"
  from assms(1) have
    "foldE (map_streams_step run_probe a (get_stream_count_map_from_input run_probe a f) f)
       STREAM_TYPES_SHORT (?start @ (if \<not> nounknown a then [''-copy_unknown''] else [])) = Inr c"
    by (simp add: mapped_command_def Let_def secondary_inputs_id)
  moreover have "no_strip_flag (?start @ (if \<not> nounknown a then [''-copy_unknown''] else []))"
    using assms(2) by simp
  ultimately show ?thesis by (rule map_streams_tokens)
qed



subsection \<open>Padding rounds up to the next multiple\<close>

text \<open>
  C6. For every resolution \<open>res \<ge> 0\<close> and padding \<open>p > 0\<close>, \<open>pad_resolution res p\<close> returns
  the smallest multiple of \<open>p\<close> that is at least \<open>res\<close>: it is a multiple of \<open>p\<close>, it is not
  below \<open>res\<close>, and every multiple of \<open>p\<close> that is not below \<open>res\<close> is at least as large.
  In particular \<open>pad_resolution 1279 4\<close> is 1280.
\<close>

theorem pad_resolution_least_multiple:
  assumes "0 \<le> res" and "0 < p"
  shows "\<exists>r. pad_resolution res p = Inr r \<and> p dvd r \<and> res \<le> r
           \<and> (\<forall>m. p dvd m \<and> res \<le> m \<longrightarrow> r \<le> m)
           \<and> pad_resolution 1279 4 = Inr 1280"
proof (cases "res mod p = 0")
  case True
  then have "pad_resolution res p = Inr res"
    using assms by (simp add: pad_resolution_def)
  moreover have "p dvd res" using True by (simp add: dvd_eq_mod_eq_0)
  moreover have "pad_resolution 1279 4 = Inr 1280" by (simp add: pad_resolution_def)
  ultimately show ?thesis by simp
next
  case False
  define r where "r = res + p - res mod p"
  have eq: "pad_resolution res p = Inr r"
    using assms False by (simp add: pad_resolution_def r_def)
  have rdiv: "r = (res div p + 1) * p"
    unfolding r_def by (simp add: algebra_simps minus_mod_eq_mult_div)
  have d: "p dvd r" unfolding rdiv by simp
  have lt: "res mod p < p" using assms by simp
  have ge: "res \<le> r" unfolding r_def using lt by simp
  have least: "r \<le> m" if "p dvd m" and "res \<le> m" for m
  proof -
    from that obtain k where k: "m = p * k" by (auto simp: dvd_def)
    have "0 \<le> res mod p" using assms by simp
    then have "res mod p > 0" using False by simp
    moreover have "res div p * p = res - res mod p"
      by (simp add: minus_mod_eq_div_mult)
    ultimately have "res div p * p < res" by simp
    then have "res div p * p < p * k" using that k by simp
    then have "res div p < k" using assms by (simp add: mult.commute)
    then have "res div p + 1 \<le> k" by simp
    then have "(res div p + 1) * p \<le> k * p" using assms by (simp add: mult_right_mono)
    then show ?thesis using rdiv k by (simp add: mult.commute)
  qed
  have "pad_resolution 1279 4 = Inr 1280" by (simp add: pad_resolution_def)
  with eq d ge least show ?thesis by blast
qed

theorem pad_resolution_least_multiple_witness:
  "(0::int) \<le> 1279 \<and> (0::int) < 4
     \<and> (\<exists>r. pad_resolution 1279 4 = Inr r \<and> 4 dvd r \<and> 1279 \<le> r
           \<and> (\<forall>m. 4 dvd m \<and> 1279 \<le> m \<longrightarrow> r \<le> m)
           \<and> pad_resolution 1279 4 = Inr 1280)"
  using pad_resolution_least_multiple [of 1279 4] by simp

subsection \<open>The validator: bitrate needs a codec for the same stream type\<close>

lemma mapE_first_item_pairs:
  "mapE first_item (pair_items xs) = Inr (map PStr (map fst xs))"
  by (induction xs) (auto simp: pair_items_def first_item_def)

lemma enumeration_pairs:
  "arg_stream_type_enumeration (map_option pair_items opt) = Inr (map PStr (option_keys opt))"
proof (cases opt)
  case None
  then show ?thesis by (simp add: arg_stream_type_enumeration_def option_keys_def)
next
  case (Some xs)
  then show ?thesis
    using mapE_first_item_pairs [of xs]
    by (cases xs) (simp_all add: arg_stream_type_enumeration_def option_keys_def pair_items_def)
qed

lemma stream_keys_bitrate: "stream_keys a ''bitrate'' = Inr (map PStr (option_keys (bitrate a)))"
  by (simp add: stream_keys_def getattr_list_def enumeration_pairs)

lemma stream_keys_codec: "stream_keys a ''codec'' = Inr (map PStr (option_keys (codec a)))"
  by (simp add: stream_keys_def getattr_list_def enumeration_pairs)

lemma stream_keys_addcodec: "stream_keys a ''addcodec'' = Inr (map PStr (option_keys (addcodec a)))"
  by (simp add: stream_keys_def getattr_list_def enumeration_pairs)

lemma any_key_in_codecs:
  "any_key_in a (PStr t) [''codec'', ''addcodec'']
     = Inr (t \<in> set (option_keys (codec a)) \<or> t \<in> set (option_keys (addcodec a)))"
  by (auto simp: stream_keys_codec stream_keys_addcodec)

lemma bitrate_check_fails:
  assumes "t \<in> set (option_keys (bitrate a))"
    and "t \<notin> set (option_keys (codec a))"
    and "t \<notin> set (option_keys (addcodec a))"
  shows "\<exists>e. check_arg_stream_dependencies a [''bitrate''] [''codec'', ''addcodec''] = Inl e"
proof -
  let ?f = "\<lambda>key (_::unit).
      bindE (any_key_in a key [''codec'', ''addcodec'']) (\<lambda>found.
        if \<not> found
        then Inl (Exception ''Use of stream option requires use of another with same stream type'')
        else Inr ())"
  have "PStr t \<in> set (map PStr (option_keys (bitrate a)))" using assms(1) by simp
  moreover have "\<And>s. \<exists>e. ?f (PStr t) s = Inl e"
    using assms(2,3) by (simp add: any_key_in_codecs del: any_key_in.simps)
  ultimately obtain e where "foldE ?f (map PStr (option_keys (bitrate a))) () = Inl e"
    using foldE_fails [of "PStr t" "map PStr (option_keys (bitrate a))" ?f "()"] by blast
  then show ?thesis
    by (simp add: check_arg_stream_dependencies_def stream_keys_bitrate)
qed

text \<open>
  C7. For every option set in which \<open>bitrate\<close> is set for some stream type \<open>t\<close> while
  neither \<open>codec\<close> nor \<open>addcodec\<close> is set for \<open>t\<close>, \<open>check_valid_arguments\<close> raises, and
  \<open>main\<close> returns before the batch starts: \<open>process_input\<close> is never called, so no file
  is processed.
\<close>

theorem bitrate_requires_codec:
  assumes "t \<in> set (option_keys (bitrate a))"
    and "t \<notin> set (option_keys (codec a))"
    and "t \<notin> set (option_keys (addcodec a))"
  shows "(\<exists>e. check_valid_arguments a = Inl e)
       \<and> (\<exists>code. main fl run_probe isdir isfile glob platform_system run_ffmpeg a = NotStarted code)"
proof -
  have v: "\<exists>e. check_valid_arguments b = Inl e"
    if "bitrate b = bitrate a" "codec b = codec a" "addcodec b = addcodec a" for b
  proof -
    from bitrate_check_fails [of t b] assms that
    obtain e where "check_arg_stream_dependencies b [''bitrate''] [''codec'', ''addcodec''] = Inl e"
      by auto
    then show ?thesis by (simp add: check_valid_arguments_def)
  qed
  have v1: "\<exists>e. check_valid_arguments a = Inl e" by (rule v) simp_all
  have v2: "\<exists>e. check_valid_arguments (a\<lparr>setaffinity := False\<rparr>) = Inl e" by (rule v) simp_all
  from v1 v2 have "\<exists>code. main fl run_probe isdir isfile glob platform_system run_ffmpeg a = NotStarted code"
    by (auto simp: main_def Let_def)
  with v1 show ?thesis by blast
qed

theorem bitrate_requires_codec_witness:
  "''a'' \<in> set (option_keys (bitrate (default_args\<lparr>bitrate := Some [(''a'', ''128k'')]\<rparr>)))
   \<and> ''a'' \<notin> set (option_keys (codec (default_args\<lparr>bitrate := Some [(''a'', ''128k'')]\<rparr>)))
   \<and> ''a'' \<notin> set (option_keys (addcodec (default_args\<lparr>bitrate := Some [(''a'', ''128k'')]\<rparr>)))
   \<and> (\<exists>e. check_valid_arguments (default_args\<lparr>bitrate := Some [(''a'', ''128k'')]\<rparr>) = Inl e)
   \<and> (\<exists>code. main frac_ops (example_probe [''audio''] (\<lambda>s. ''aac'') [] [] [])
                 (\<lambda>p. False) (\<lambda>p. True) (\<lambda>p. []) ''Linux'' (\<lambda>c. 0)
                 (default_args\<lparr>bitrate := Some [(''a'', ''128k'')]\<rparr>) = NotStarted code)"
proof -
  let ?a = "default_args\<lparr>bitrate := Some [(''a'', ''128k'')]\<rparr>"
  have h1: "''a'' \<in> set (option_keys (bitrate ?a))" by (simp add: option_keys_def)
  have h2: "''a'' \<notin> set (option_keys (codec ?a))" by (simp add: option_keys_def default_args_def)
  have h3: "''a'' \<notin> set (option_keys (addcodec ?a))" by (simp add: option_keys_def default_args_def)
  from bitrate_requires_codec [OF h1 h2 h3] h1 h2 h3 show ?thesis by blast
qed

subsection \<open>One mapping directive per group with streams\<close>
















subsection \<open>An out-of-range stream index gives up one file\<close>

lemma map_loop_fails_compile:
  assumes "\<And>s. \<exists>e. foldE (map_streams_step run_probe a
                (get_stream_count_map_from_input run_probe a f) f) STREAM_TYPES_SHORT s = Inl e"
  shows "\<exists>e. compile_file fl run_probe isdir a f = Inl e"
proof (cases "CHR ''.'' \<notin> set (path_tail f)")
  case True
  then show ?thesis by (simp add: compile_file_def)
next
  case False
  have "\<exists>e. mapped_command run_probe a f = Inl e"
    unfolding mapped_command_def Let_def
    by (intro bindE_fails_right assms)
  then have "\<exists>e. bindE (mapped_command run_probe a f) g = Inl e" for g :: "string list \<Rightarrow> error + string list \<times> string"
    by (rule bindE_fails_left)
  with False show ?thesis
    unfolding compile_file_def Let_def split_def by (simp only: if_False)
qed

lemma compile_fails_loop:
  assumes "compile_file fl run_probe isdir a f = Inl e"
  shows "process_loop fl run_probe isdir run_ffmpeg a (f # rest) st
           = process_loop fl run_probe isdir run_ffmpeg a rest (st\<lparr>err_count := err_count st + 1\<rparr>)"
  using assms by simp

text \<open>
  C3, as amended. If a single-stream index is requested for a stream type, for the primary
  group by \<open>singlestream\<close> with no no-copy for the type, or for the added group by
  \<open>addstream\<close> with a non-empty add-file for the type, and the index + 1 exceeds the
  probed stream count of that group, then compiling the file fails, and the batch loop
  goes on with the remaining files in a state that differs only in the error counter,
  which is one higher.
\<close>

theorem out_of_range_index_fails_file:
  assumes "t \<in> set STREAM_TYPES_SHORT"
    and "(stream_type_arg (singlestream a) t = Some i
           \<and> \<not> stream_type_bool (map_option str_items (nocopy a)) t
           \<and> (\<exists>n. get_stream_count_map_from_input run_probe a f t = Some n \<and> int n < i + 1))
       \<or> (stream_type_arg (addstream a) t = Some i
           \<and> (\<exists>path l. stream_type_arg (addfile a) t = Some path \<and> path \<noteq> []
                 \<and> STREAM_TYPES_DICT t = Inr l
                 \<and> int (probe_stream_count run_probe (ffprobebin a) path l) < i + 1))"
  shows "(\<exists>e. compile_file fl run_probe isdir a f = Inl e)
       \<and> process_loop fl run_probe isdir run_ffmpeg a (f # rest) st
           = process_loop fl run_probe isdir run_ffmpeg a rest (st\<lparr>err_count := err_count st + 1\<rparr>)"
proof -
  let ?counts = "get_stream_count_map_from_input run_probe a f"
  have step: "\<exists>e. map_streams_step run_probe a ?counts f t s = Inl e" for s
    using assms(2)
  proof
    assume p: "stream_type_arg (singlestream a) t = Some i
           \<and> \<not> stream_type_bool (map_option str_items (nocopy a)) t
           \<and> (\<exists>n. ?counts t = Some n \<and> int n < i + 1)"
    then have "\<exists>e. primary_stream_count a ?counts t = Inl e"
      by (auto simp: primary_stream_count_def dict_get_def)
    then show ?thesis
      unfolding map_streams_step_def
      by (intro bindE_fails_right bindE_fails_left)
  next
    assume "stream_type_arg (addstream a) t = Some i
           \<and> (\<exists>path l. stream_type_arg (addfile a) t = Some path \<and> path \<noteq> []
                 \<and> STREAM_TYPES_DICT t = Inr l
                 \<and> int (probe_stream_count run_probe (ffprobebin a) path l) < i + 1)"
    then have "\<exists>e. added_stream_count run_probe a t = Inl e"
      by (auto simp: added_stream_count_def truthy_str_def)
    then show ?thesis
      unfolding map_streams_step_def
      by (intro bindE_fails_left)
  qed
  have "\<exists>e. foldE (map_streams_step run_probe a ?counts f) STREAM_TYPES_SHORT s = Inl e" for s
    using foldE_fails [OF assms(1), of "map_streams_step run_probe a ?counts f" s] step by blast
  from map_loop_fails_compile [OF this] obtain e
    where e: "compile_file fl run_probe isdir a f = Inl e" by blast
  from compile_fails_loop [OF e] e show ?thesis by blast
qed


theorem out_of_range_index_fails_file_witness:
  "''v'' \<in> set STREAM_TYPES_SHORT
   \<and> stream_type_arg (singlestream (default_args\<lparr>singlestream := Some [(''v'', 5)]\<rparr>)) ''v'' = Some 5
   \<and> \<not> stream_type_bool (map_option str_items (nocopy (default_args\<lparr>singlestream := Some [(''v'', 5)]\<rparr>))) ''v''
   \<and> get_stream_count_map_from_input (example_probe [''video'', ''audio''] (\<lambda>s. []) [] [] [])
         (default_args\<lparr>singlestream := Some [(''v'', 5)]\<rparr>) ''in.mkv'' ''v'' = Some 1
   \<and> int 1 < 5 + 1
   \<and> (\<exists>e. compile_file frac_ops (example_probe [''video'', ''audio''] (\<lambda>s. []) [] [] [])
            (\<lambda>p. False) (default_args\<lparr>singlestream := Some [(''v'', 5)]\<rparr>) ''in.mkv'' = Inl e)
   \<and> process_loop frac_ops (example_probe [''video'', ''audio''] (\<lambda>s. []) [] [] [])
         (\<lambda>p. False) (\<lambda>c. 0) (default_args\<lparr>singlestream := Some [(''v'', 5)]\<rparr>)
         [''in.mkv'', ''next.mkv''] \<lparr>err_count = 0, commands = []\<rparr>
       = process_loop frac_ops (example_probe [''video'', ''audio''] (\<lambda>s. []) [] [] [])
           (\<lambda>p. False) (\<lambda>c. 0) (default_args\<lparr>singlestream := Some [(''v'', 5)]\<rparr>)
           [''next.mkv''] \<lparr>err_count = 1, commands = []\<rparr>"
proof -
  let ?p = "example_probe [''video'', ''audio''] (\<lambda>s. []) [] [] []"
  let ?a = "default_args\<lparr>singlestream := Some [(''v'', 5)]\<rparr>"
  have h0: "''v'' \<in> set STREAM_TYPES_SHORT" by code_simp
  have h1: "stream_type_arg (singlestream ?a) ''v'' = Some 5" by code_simp
  have h2: "\<not> stream_type_bool (map_option str_items (nocopy ?a)) ''v''" by code_simp
  have h3: "get_stream_count_map_from_input ?p ?a ''in.mkv'' ''v'' = Some 1" by code_simp
  have h4: "int 1 < 5 + 1" by simp
  from h1 h2 h3 h4 have h:
    "(stream_type_arg (singlestream ?a) ''v'' = Some 5
        \<and> \<not> stream_type_bool (map_option str_items (nocopy ?a)) ''v''
        \<and> (\<exists>n. get_stream_count_map_from_input ?p ?a ''in.mkv'' ''v'' = Some n \<and> int n < 5 + 1))
     \<or> (stream_type_arg (addstream ?a) ''v'' = Some 5
        \<and> (\<exists>path l. stream_type_arg (addfile ?a) ''v'' = Some path \<and> path \<noteq> []
              \<and> STREAM_TYPES_DICT ''v'' = Inr l
              \<and> int (probe_stream_count ?p (ffprobebin ?a) path l) < 5 + 1))"
    by blast
  from out_of_range_index_fails_file [OF h0 h, where fl = frac_ops and isdir = "\<lambda>p. False"
      and run_ffmpeg = "\<lambda>c. 0" and rest = "[''next.mkv'']"
      and st = "\<lparr>err_count = 0, commands = []\<rparr>"] h0 h1 h2 h3 h4
  show ?thesis by simp
qed

text \<open>
  The claim as stated fails: index 5 is requested by \<open>singlestream\<close> for audio on files with
  a single audio stream, but with no-copy for audio no bounds check is made: both files of
  the batch compile, are handed to the engine, and the error counter stays 0.
\<close>

theorem index_not_checked_under_nocopy_counterexample:
  "process_input frac_ops (example_probe [''video'', ''audio''] (\<lambda>s. []) [] [] [])
       (\<lambda>p. False) (\<lambda>c. 0)
       (default_args\<lparr>nocopy := Some [''a''], singlestream := Some [(''a'', 5)]\<rparr>)
       [''in.mkv'', ''next.mkv'']
     = Returned \<lparr>err_count = 0,
         commands =
           [[''ffmpeg'', ''-i'', ''in.mkv'', ''-copy_unknown'', ''-map'', ''0:v?'', ''-c:v:0'',
             ''copy'', ''-map_chapters'', ''-1'', ''-map_metadata'', ''-1'', ''out.mkv''],
            [''ffmpeg'', ''-i'', ''next.mkv'', ''-copy_unknown'', ''-map'', ''0:v?'', ''-c:v:0'',
             ''copy'', ''-map_chapters'', ''-1'', ''-map_metadata'', ''-1'', ''out.mkv'']]\<rparr>"
  by code_simp

subsection \<open>The order of the mapping directives\<close>

text \<open>
  C1. The claim asks for the mapping directives in the order video, audio, subtitle, data,
  attachment, as the program's help text does (line 32). The mapping loop runs over
  \<open>STREAM_TYPES_SHORT\<close>, which lists attachment before data: on a file with one data and
  one attachment stream and no options, the attachment directive \<open>-map 0:t?\<close> comes
  before the data directive \<open>-map 0:d?\<close>.
\<close>

theorem attachment_mapped_before_data:
  "compile_file frac_ops (example_probe [''data'', ''attachment''] (\<lambda>s. []) [] [] [])
       (\<lambda>p. False) default_args ''in.mkv''
     = Inr ([''ffmpeg'', ''-i'', ''in.mkv'', ''-copy_unknown'',
             ''-map'', ''0:t?'', ''-c:t:0'', ''-map'', ''0:d?'', ''-c:d:0'',
             ''-map_chapters'', ''-1'', ''-map_metadata'', ''-1'', ''out.mkv''],
            ''out.mkv'')"
  by code_simp

subsection \<open>Convert-only for video\<close>

text \<open>
  C4. With \<open>-codec v h264 -convertonly v\<close>, building the encoder arguments for h264 reads
  \<open>args.vbitrate\<close>, which raises: \<open>stream_map\<close> returns no directive, whether the stream
  probes as h264 or as h265, and the file is given up. The claim asks for \<open>copy\<close> for the
  first and the h264 encoder arguments for the second.
\<close>

theorem convertonly_video_raises:
  "stream_map (example_probe [''video''] (\<lambda>s. ''h264'') [] [] []) True
       (default_args\<lparr>codec := Some [(''v'', ''h264'')], convertonly := Some [''v'']\<rparr>)
       ''v'' 1 0 ''in.mkv''
     = Inl (AttributeError ''vbitrate'')
   \<and> stream_map (example_probe [''video''] (\<lambda>s. ''h265'') [] [] []) True
       (default_args\<lparr>codec := Some [(''v'', ''h264'')], convertonly := Some [''v'']\<rparr>)
       ''v'' 1 0 ''in.mkv''
     = Inl (AttributeError ''vbitrate'')
   \<and> compile_file frac_ops (example_probe [''video''] (\<lambda>s. ''h264'') [] [] []) (\<lambda>p. False)
       (default_args\<lparr>codec := Some [(''v'', ''h264'')], convertonly := Some [''v'']\<rparr>) ''in.mkv''
     = Inl (AttributeError ''vbitrate'')"
  by code_simp

subsection \<open>The suffix with a crop anchor\<close>

text \<open>
  C8. With \<open>-suffix -codec v h264 -hd -crop center\<close> and the resolved size 1280x720,
  \<open>suffix_str\<close> returns the empty string: the test \<open>stream_type in args.codec\<close> compares the
  type code with the [type, codec] entries and never holds, so neither the size nor the
  crop anchor is appended. The claim asks for a suffix that holds both.
\<close>

theorem suffix_without_size_and_crop:
  "suffix_str (default_args\<lparr>suffix := True, codec := Some [(''v'', ''h264'')],
                  hd_arg := True, crop := Some ''center''\<rparr>) 1280 720
     = Inr []"
  by code_simp

subsection \<open>A request that matches the input is no resize\<close>

lemma probe_input_geometry_nonzero:
  assumes "probe_input_geometry fl run_probe a p = Inr (iw, ih, ar)"
  shows "iw \<noteq> 0 \<and> ih \<noteq> 0"
  using assms
  by (auto simp: probe_input_geometry_def bindE_def split: sum.splits if_splits)

text \<open>
  C5. For every geometry request on an input whose geometry was probed (a height and a
  width, neither 0, and an aspect ratio): if the requested output width equals the probed
  input width, or the requested output height the probed input height, the resolver
  gives no scale or crop filter and resets both output dimensions to 0; what
  \<open>video_filters_from_args\<close> returns then holds only the colour-space filter of \<open>-sdr\<close> and
  the deshake filter, where requested.
\<close>

theorem matching_dimension_is_noop:
  assumes "probe_input_geometry fl run_probe a (if sequence a then printf_filename f else f)
             = Inr (iw, ih, ar)"
    and "ow = iw \<or> oh = ih"
  shows "resolve_geometry fl a ow oh iw ih ar = Inr ([], 0, 0)
       \<and> video_filters_from_args fl run_probe a ow oh f
           = Inr ((if sdr a
                   then [''scale=in_color_matrix=auto:in_range=auto:out_color_matrix=bt709:out_range=tv'']
                   else [])
                  @ (if deshake a then [''deshake''] else []), 0, 0)"
proof -
  from probe_input_geometry_nonzero [OF assms(1)] have nz: "iw \<noteq> 0" "ih \<noteq> 0" by simp_all
  with assms(2) have req: "ow \<noteq> 0 \<or> oh \<noteq> 0" by auto
  have r: "resolve_geometry fl a ow oh iw ih ar = Inr ([], 0, 0)"
    using assms(2) by (auto simp: resolve_geometry_def)
  have "video_filters_from_args fl run_probe a ow oh f
           = Inr ((if sdr a
                   then [''scale=in_color_matrix=auto:in_range=auto:out_color_matrix=bt709:out_range=tv'']
                   else [])
                  @ (if deshake a then [''deshake''] else []), 0, 0)"
    using req assms(1) r by (simp add: video_filters_from_args_def Let_def)
  with r show ?thesis by simp
qed

theorem matching_dimension_is_noop_witness:
  "probe_input_geometry frac_ops (example_probe [''video''] (\<lambda>s. []) ''1080'' ''1920'' ''16:9'')
       (default_args\<lparr>height := Some 1080, deshake := True\<rparr>) ''in.mkv''
     = Inr (1920, 1080, (16, 9))
   \<and> (1080::int) = 1080
   \<and> resolve_geometry frac_ops (default_args\<lparr>height := Some 1080, deshake := True\<rparr>)
         0 1080 1920 1080 (16, 9) = Inr ([], 0, 0)
   \<and> video_filters_from_args frac_ops (example_probe [''video''] (\<lambda>s. []) ''1080'' ''1920'' ''16:9'')
         (default_args\<lparr>height := Some 1080, deshake := True\<rparr>) 0 1080 ''in.mkv''
       = Inr ([''deshake''], 0, 0)"
proof -
  let ?p = "example_probe [''video''] (\<lambda>s. []) ''1080'' ''1920'' ''16:9''"
  let ?a = "default_args\<lparr>height := Some 1080, deshake := True\<rparr>"
  have s: "sequence ?a = False" "sdr ?a = False" "deshake ?a = True" by code_simp+
  have h1: "probe_input_geometry frac_ops ?p ?a (if sequence ?a then printf_filename ''in.mkv'' else ''in.mkv'')
     = Inr (1920, 1080, (16, 9))" by code_simp
  have h2: "(0::int) = 1920 \<or> (1080::int) = 1080" by simp
  from matching_dimension_is_noop [OF h1 h2] h1 s show ?thesis by simp
qed

subsection \<open>The strip directives follow the no-copy list\<close>



















subsection \<open>The command depends on the option set and the probed facts only\<close>

lemma same_counts:
  assumes "same_probe_facts a f p1 p2"
  shows "get_stream_count_map_from_input p1 a f = get_stream_count_map_from_input p2 a f"
  using assms by (simp add: same_probe_facts_def get_stream_count_map_from_input_def)

lemma same_stream_map_primary:
  assumes "same_probe_facts a f p1 p2"
  shows "stream_map p1 True a t n first f = stream_map p2 True a t n first f"
proof -
  from assms have "probe_media_property p1 (ffprobebin a) f ''codec_name''
      = probe_media_property p2 (ffprobebin a) f ''codec_name''"
    by (intro ext) (simp add: same_probe_facts_def)
  then show ?thesis unfolding stream_map_def by (simp only:)
qed

lemma same_stream_map_added:
  "stream_map p1 False a t n first g = stream_map p2 False a t n first g"
  unfolding stream_map_def by simp

lemma same_added_count:
  assumes "same_probe_facts a f p1 p2"
  shows "added_stream_count p1 a t = added_stream_count p2 a t"
proof (cases "stream_type_arg (addfile a) t")
  case None
  then show ?thesis by (simp add: added_stream_count_def truthy_str_def)
next
  case (Some g)
  then have "g \<in> snd ` set (option_list (addfile a))"
    by (cases "addfile a")
       (auto simp: stream_type_arg_def option_list_def dest!: map_of_SomeD intro: rev_image_eqI)
  with assms have "probe_stream_types p1 (ffprobebin a) g = probe_stream_types p2 (ffprobebin a) g"
    by (simp add: same_probe_facts_def)
  then have eq: "probe_stream_count p1 (ffprobebin a) g = probe_stream_count p2 (ffprobebin a) g"
    by (intro ext) (simp only: probe_stream_count_def)
  show ?thesis unfolding added_stream_count_def Some Let_def option.case eq ..
qed

lemma same_map_streams_step:
  assumes "same_probe_facts a f p1 p2"
  shows "map_streams_step p1 a counts f = map_streams_step p2 a counts f"
proof (intro ext)
  fix t c
  show "map_streams_step p1 a counts f t c = map_streams_step p2 a counts f t c"
    unfolding map_streams_step_def
    by (simp only: same_added_count [OF assms] same_stream_map_primary [OF assms]
        same_stream_map_added [of p1 _ _ _ _ _ p2])
qed

lemma same_mapped_command:
  assumes "same_probe_facts a f p1 p2"
  shows "mapped_command p1 a f = mapped_command p2 a f"
  unfolding mapped_command_def
  by (simp only: same_counts [OF assms] same_map_streams_step [OF assms])

lemma same_geometry:
  assumes "same_probe_facts a f p1 p2"
  shows "probe_input_geometry fl p1 a (if sequence a then printf_filename f else f)
       = probe_input_geometry fl p2 a (if sequence a then printf_filename f else f)"
proof -
  from assms have "\<forall>q. q \<in> set [''height'', ''width'', ''display_aspect_ratio''] \<longrightarrow>
             probe_media_property p1 (ffprobebin a)
               (if sequence a then printf_filename f else f) q 0 ''v''
             = probe_media_property p2 (ffprobebin a)
               (if sequence a then printf_filename f else f) q 0 ''v''"
    unfolding same_probe_facts_def by (elim conjE)
  note eq = this [rule_format]
  have h: "probe_media_property p1 (ffprobebin a)
               (if sequence a then printf_filename f else f) ''height'' 0 ''v''
             = probe_media_property p2 (ffprobebin a)
               (if sequence a then printf_filename f else f) ''height'' 0 ''v''"
    by (rule eq) simp
  have w: "probe_media_property p1 (ffprobebin a)
               (if sequence a then printf_filename f else f) ''width'' 0 ''v''
             = probe_media_property p2 (ffprobebin a)
               (if sequence a then printf_filename f else f) ''width'' 0 ''v''"
    by (rule eq) simp
  have d: "probe_media_property p1 (ffprobebin a)
               (if sequence a then printf_filename f else f) ''display_aspect_ratio'' 0 ''v''
             = probe_media_property p2 (ffprobebin a)
               (if sequence a then printf_filename f else f) ''display_aspect_ratio'' 0 ''v''"
    by (rule eq) simp
  show ?thesis unfolding probe_input_geometry_def h w d ..
qed

lemma same_video_filters:
  assumes "same_probe_facts a f p1 p2"
  shows "video_filters_from_args fl p1 a ow oh f = video_filters_from_args fl p2 a ow oh f"
  unfolding video_filters_from_args_def Let_def
  by (simp only: same_geometry [OF assms])

lemma same_filtered_command:
  assumes "same_probe_facts a f p1 p2"
  shows "filtered_command fl p1 a f ow oh c = filtered_command fl p2 a f ow oh c"
  unfolding filtered_command_def
  by (simp only: same_video_filters [OF assms])

lemma same_output_file_name:
  assumes "isdir (output_arg a) = isdir' (output_arg a)"
  shows "output_file_name isdir a f w h = output_file_name isdir' a f w h"
  unfolding output_file_name_def by (simp only: assms)

text \<open>
  C9. Compiling a file twice under the same option set gives the same result, the same
  failure or the same command line, output file and suffix, whenever the two runs are
  answered the same probed facts (\<open>same_probe_facts\<close>: stream types, codec names and the
  geometry of the input) and the same answer to whether the output path is a directory.
  The probes of the two runs may differ on every query the compilation does not make, and
  the directory tests on every other path.
\<close>

theorem compile_depends_on_probed_facts_only:
  assumes "same_probe_facts a f p1 p2"
    and "isdir (output_arg a) = isdir' (output_arg a)"
  shows "compile_file fl p1 isdir a f = compile_file fl p2 isdir' a f
       \<and> file_suffix fl p1 a f = file_suffix fl p2 a f"
  unfolding compile_file_def file_suffix_def
  by (simp only: same_mapped_command [OF assms(1)] same_filtered_command [OF assms(1)]
      same_output_file_name [where isdir = isdir and isdir' = isdir', OF assms(2)])

text \<open>
  The theorem for two probes that differ on the file \<open>other.mkv\<close> and two directory tests
  that differ on the path \<open>elsewhere\<close>, with an added audio file, a scaled video and a
  suffix: both runs give the command line and the suffix shown.
\<close>

theorem compile_depends_on_probed_facts_only_witness:
  "same_probe_facts
       (default_args\<lparr>addfile := Some [(''a'', ''add.mka'')], nocopy := Some [''s''],
          height := Some 720, suffix := True\<rparr>) ''in.mkv''
       (example_probe [''video'', ''audio''] (\<lambda>s. ''h264'') ''1080'' ''1920'' ''16:9'')
       (\<lambda>argv. if last argv = ''other.mkv'' then ''junk''
          else example_probe [''video'', ''audio''] (\<lambda>s. ''h264'') ''1080'' ''1920'' ''16:9'' argv)
   \<and> example_probe [''video'', ''audio''] (\<lambda>s. ''h264'') ''1080'' ''1920'' ''16:9''
         [''ffprobe'', ''-v'', ''error'', ''-show_entries'', ''stream=codec_type'', ''other.mkv'']
       \<noteq> ''junk''
   \<and> (\<lambda>p. False) (output_arg (default_args\<lparr>addfile := Some [(''a'', ''add.mka'')],
          nocopy := Some [''s''], height := Some 720, suffix := True\<rparr>))
       = (\<lambda>p. p = ''elsewhere'') (output_arg (default_args\<lparr>addfile := Some [(''a'', ''add.mka'')],
          nocopy := Some [''s''], height := Some 720, suffix := True\<rparr>))
   \<and> compile_file frac_ops
         (example_probe [''video'', ''audio''] (\<lambda>s. ''h264'') ''1080'' ''1920'' ''16:9'')
         (\<lambda>p. False)
         (default_args\<lparr>addfile := Some [(''a'', ''add.mka'')], nocopy := Some [''s''],
            height := Some 720, suffix := True\<rparr>) ''in.mkv''
       = compile_file frac_ops
         (\<lambda>argv. if last argv = ''other.mkv'' then ''junk''
            else example_probe [''video'', ''audio''] (\<lambda>s. ''h264'') ''1080'' ''1920'' ''16:9'' argv)
         (\<lambda>p. p = ''elsewhere'')
         (default_args\<lparr>addfile := Some [(''a'', ''add.mka'')], nocopy := Some [''s''],
            height := Some 720, suffix := True\<rparr>) ''in.mkv''
   \<and> file_suffix frac_ops
         (example_probe [''video'', ''audio''] (\<lambda>s. ''h264'') ''1080'' ''1920'' ''16:9'')
         (default_args\<lparr>addfile := Some [(''a'', ''add.mka'')], nocopy := Some [''s''],
            height := Some 720, suffix := True\<rparr>) ''in.mkv''
       = file_suffix frac_ops
         (\<lambda>argv. if last argv = ''other.mkv'' then ''junk''
            else example_probe [''video'', ''audio''] (\<lambda>s. ''h264'') ''1080'' ''1920'' ''16:9'' argv)
         (default_args\<lparr>addfile := Some [(''a'', ''add.mka'')], nocopy := Some [''s''],
            height := Some 720, suffix := True\<rparr>) ''in.mkv''
   \<and> compile_file frac_ops
         (\<lambda>argv. if last argv = ''other.mkv'' then ''junk''
            else example_probe [''video'', ''audio''] (\<lambda>s. ''h264'') ''1080'' ''1920'' ''16:9'' argv)
         (\<lambda>p. p = ''elsewhere'')
         (default_args\<lparr>addfile := Some [(''a'', ''add.mka'')], nocopy := Some [''s''],
            height := Some 720, suffix := True\<rparr>) ''in.mkv''
       = Inr ([''ffmpeg'', ''-i'', ''in.mkv'', ''-copy_unknown'', ''-map'', ''0:v?'', ''-c:v:0'', ''copy'',
               ''-map'', ''0:a?'', ''-c:a:0'', ''copy'', ''-map'', ''0:a?'', ''-c:a:1'', ''copy'',
               ''-vf'', ''scale=1280:720,setsar=1:1'', ''-map_chapters'', ''-1'',
               ''-map_metadata'', ''-1'', ''out_nosubtitle.mkv''], ''out_nosubtitle.mkv'')
   \<and> file_suffix frac_ops
         (\<lambda>argv. if last argv = ''other.mkv'' then ''junk''
            else example_probe [''video'', ''audio''] (\<lambda>s. ''h264'') ''1080'' ''1920'' ''16:9'' argv)
         (default_args\<lparr>addfile := Some [(''a'', ''add.mka'')], nocopy := Some [''s''],
            height := Some 720, suffix := True\<rparr>) ''in.mkv''
       = Inr ''_nosubtitle''"
proof -
  let ?a = "default_args\<lparr>addfile := Some [(''a'', ''add.mka'')], nocopy := Some [''s''],
              height := Some 720, suffix := True\<rparr>"
  let ?p1 = "example_probe [''video'', ''audio''] (\<lambda>s. ''h264'') ''1080'' ''1920'' ''16:9''"
  let ?p2 = "\<lambda>argv. if last argv = ''other.mkv'' then ''junk'' else ?p1 argv"
  have h1: "same_probe_facts ?a ''in.mkv'' ?p1 ?p2"
    by (simp add: same_probe_facts_def probe_stream_types_def probe_media_property_def
        probe_string_def option_list_def default_args_def)
  have h2: "(\<lambda>p. False) (output_arg ?a) = (\<lambda>p. p = ''elsewhere'') (output_arg ?a)"
    by (simp add: default_args_def)
  have d: "?p1 [''ffprobe'', ''-v'', ''error'', ''-show_entries'', ''stream=codec_type'', ''other.mkv'']
       \<noteq> ''junk''"
    by code_simp
  have c: "compile_file frac_ops ?p2 (\<lambda>p. p = ''elsewhere'') ?a ''in.mkv''
       = Inr ([''ffmpeg'', ''-i'', ''in.mkv'', ''-copy_unknown'', ''-map'', ''0:v?'', ''-c:v:0'', ''copy'',
               ''-map'', ''0:a?'', ''-c:a:0'', ''copy'', ''-map'', ''0:a?'', ''-c:a:1'', ''copy'',
               ''-vf'', ''scale=1280:720,setsar=1:1'', ''-map_chapters'', ''-1'',
               ''-map_metadata'', ''-1'', ''out_nosubtitle.mkv''], ''out_nosubtitle.mkv'')"
    by code_simp
  have s: "file_suffix frac_ops ?p2 ?a ''in.mkv'' = Inr ''_nosubtitle''"
    by code_simp
  have e: "compile_file frac_ops ?p1 (\<lambda>p. False) ?a ''in.mkv''
             = compile_file frac_ops ?p2 (\<lambda>p. p = ''elsewhere'') ?a ''in.mkv''
           \<and> file_suffix frac_ops ?p1 ?a ''in.mkv'' = file_suffix frac_ops ?p2 ?a ''in.mkv''"
    by (rule compile_depends_on_probed_facts_only
          [where isdir = "\<lambda>p. False" and isdir' = "\<lambda>p. p = ''elsewhere''", OF h1 h2])
  from e have e1: "compile_file frac_ops ?p1 (\<lambda>p. False) ?a ''in.mkv''
             = compile_file frac_ops ?p2 (\<lambda>p. p = ''elsewhere'') ?a ''in.mkv''" ..
  from e have e2: "file_suffix frac_ops ?p1 ?a ''in.mkv'' = file_suffix frac_ops ?p2 ?a ''in.mkv''" ..
  from h1 d h2 e1 e2 c s show ?thesis by (intro conjI)
qed

end
